theory Spec2Isabelle
  imports Complex_Main "HOL-Library.Sublist" "HOL-Library.Product_Lexorder"
begin

section \<open>Values of the upstream feed\<close>

text \<open>
  The scraper (\<^verbatim>\<open>realstate/scraper.py\<close>) works on what \<^verbatim>\<open>json.loads\<close> returns:
  \<^verbatim>\<open>None\<close>, \<^verbatim>\<open>bool\<close>, \<^verbatim>\<open>int\<close> (unbounded), \<^verbatim>\<open>float\<close>, \<^verbatim>\<open>str\<close>, \<^verbatim>\<open>list\<close> and
  \<^verbatim>\<open>dict\<close> with string keys.

  A Python \<^verbatim>\<open>float\<close> is an IEEE double. It is represented here by the real number it
  stands for, or by one of the three non-finite values (\<^verbatim>\<open>json.loads\<close> accepts the
  literals \<^verbatim>\<open>NaN\<close>, \<^verbatim>\<open>Infinity\<close> and \<^verbatim>\<open>-Infinity\<close>, and \<^verbatim>\<open>float("inf")\<close>, \<^verbatim>\<open>float("nan")\<close>
  parse). Overflow to infinity and underflow to zero are modelled at the exact thresholds
  of the double format; rounding of an in-range result to 53 significant bits is not
  modelled (a finite result is the exact real), and the sign of zero is not kept.

  Strings are \<^typ>\<open>string\<close>: lists of characters with code points below 256.
\<close>

datatype pyfloat = Fin real | PInf | NInf | NaN

datatype json =
    JNull
  | JBool bool
  | JInt int
  | JFloat pyfloat
  | JStr string
  | JList "json list"
  | JDict "(string \<times> json) list"

type_synonym jdict = "(string \<times> json) list"

datatype error =
    OverflowError
  | ValueError
  | AttributeError
  | ZeroDivisionError
  | OSError
  | FetchError

text \<open>\<^verbatim>\<open>d.get(key)\<close> on a dictionary: the value, or \<^verbatim>\<open>None\<close>.\<close>

definition dict_get :: "jdict \<Rightarrow> string \<Rightarrow> json" where
  "dict_get d k = (case map_of d k of None \<Rightarrow> JNull | Some v \<Rightarrow> v)"

text \<open>Sequencing of computations that may raise: the first exception wins.\<close>

definition and_then :: "error + 'a \<Rightarrow> ('a \<Rightarrow> error + 'b) \<Rightarrow> error + 'b" where
  "and_then m f = (case m of Inl e \<Rightarrow> Inl e | Inr a \<Rightarrow> f a)"

subsection \<open>Doubles\<close>

text \<open>
  The largest double is \<open>2^1024 - 2^971\<close>; a real of magnitude \<open>2^1024 - 2^970\<close> or more
  rounds to infinity, and one of magnitude \<open>2^-1075\<close> or less rounds to zero.
\<close>

definition dbl_overflow :: real where
  "dbl_overflow = 2 ^ 1024 - 2 ^ 970"

definition dbl_underflow :: real where
  "dbl_underflow = 1 / 2 ^ 1075"

definition to_double :: "real \<Rightarrow> pyfloat" where
  "to_double x =
     (if dbl_overflow \<le> \<bar>x\<bar> then (if x < 0 then NInf else PInf)
      else if \<bar>x\<bar> \<le> dbl_underflow then Fin 0
      else Fin x)"

text \<open>\<^verbatim>\<open>float(n)\<close> for an \<^verbatim>\<open>int\<close>: raises \<^verbatim>\<open>OverflowError\<close> when \<open>n\<close> is too large for a double.\<close>

definition float_of_int :: "int \<Rightarrow> error + pyfloat" where
  "float_of_int n =
     (if dbl_overflow \<le> \<bar>real_of_int n\<bar> then Inl OverflowError else Inr (Fin (real_of_int n)))"

text \<open>
  \<^verbatim>\<open>int(x)\<close> for a \<^verbatim>\<open>float\<close>: truncation towards zero; \<^verbatim>\<open>ValueError\<close> on NaN and
  \<^verbatim>\<open>OverflowError\<close> on an infinity.
\<close>

definition int_of_float :: "pyfloat \<Rightarrow> error + int" where
  "int_of_float x =
     (case x of
        Fin r \<Rightarrow> Inr (if 0 \<le> r then \<lfloor>r\<rfloor> else \<lceil>r\<rceil>)
      | NaN \<Rightarrow> Inl ValueError
      | _ \<Rightarrow> Inl OverflowError)"

text \<open>Truth value of a float: every float but zero is true (NaN included).\<close>

definition float_truthy :: "pyfloat \<Rightarrow> bool" where
  "float_truthy x = (x \<noteq> Fin 0)"

text \<open>
  \<^verbatim>\<open>a / b\<close> on floats: \<^verbatim>\<open>ZeroDivisionError\<close> when \<open>b\<close> is zero, the IEEE quotient
  otherwise.
\<close>

fun float_div :: "pyfloat \<Rightarrow> pyfloat \<Rightarrow> error + pyfloat" where
  "float_div a (Fin b) =
     (if b = 0 then Inl ZeroDivisionError
      else (case a of
              Fin x \<Rightarrow> Inr (to_double (x / b))
            | PInf \<Rightarrow> Inr (if 0 < b then PInf else NInf)
            | NInf \<Rightarrow> Inr (if 0 < b then NInf else PInf)
            | NaN \<Rightarrow> Inr NaN))"
| "float_div (Fin x) PInf = Inr (Fin 0)"
| "float_div (Fin x) NInf = Inr (Fin 0)"
| "float_div a b = Inr NaN"

subsection \<open>Strings\<close>

text \<open>\<^verbatim>\<open>str.isspace\<close> on the code points below 256.\<close>

definition is_space :: "char \<Rightarrow> bool" where
  "is_space c =
     (let n = (of_char c :: nat)
      in (9 \<le> n \<and> n \<le> 13) \<or> (28 \<le> n \<and> n \<le> 32) \<or> n = 133 \<or> n = 160)"

text \<open>\<^verbatim>\<open>s.strip()\<close>.\<close>

definition strip :: "string \<Rightarrow> string" where
  "strip s = rev (dropWhile is_space (rev (dropWhile is_space s)))"

text \<open>
  The white space that \<^verbatim>\<open>int(s)\<close> and \<^verbatim>\<open>float(s)\<close> drop around a numeral: the ASCII
  white space of C (tab to carriage return, and the space) and the white space above 127,
  which the conversion turns into spaces first. Unlike \<^verbatim>\<open>str.strip\<close>, they do not drop the
  four separators \<open>0x1C\<close> to \<open>0x1F\<close>.
\<close>

definition is_number_space :: "char \<Rightarrow> bool" where
  "is_number_space c =
     (let n = (of_char c :: nat)
      in (9 \<le> n \<and> n \<le> 13) \<or> n = 32 \<or> n = 133 \<or> n = 160)"

definition strip_number :: "string \<Rightarrow> string" where
  "strip_number s = rev (dropWhile is_number_space (rev (dropWhile is_number_space s)))"

text \<open>\<^verbatim>\<open>s.replace(c, "")\<close> for a one-character \<open>c\<close>.\<close>

definition remove_char :: "char \<Rightarrow> string \<Rightarrow> string" where
  "remove_char c s = filter (\<lambda>d. d \<noteq> c) s"

definition is_digit :: "char \<Rightarrow> bool" where
  "is_digit c = (let n = (of_char c :: nat) in 48 \<le> n \<and> n \<le> 57)"

definition digit_val :: "char \<Rightarrow> nat" where
  "digit_val c = of_char c - 48"

text \<open>
  ASCII letters to upper and to lower case. (\<^verbatim>\<open>str.upper\<close> also maps letters above 127;
  none of them becomes an ASCII letter that occurs in the markers compared below.)
\<close>

definition upper_char :: "char \<Rightarrow> char" where
  "upper_char c =
     (case map_of (zip ''abcdefghijklmnopqrstuvwxyz'' ''ABCDEFGHIJKLMNOPQRSTUVWXYZ'') c of
        Some u \<Rightarrow> u
      | None \<Rightarrow> c)"

definition lower_char :: "char \<Rightarrow> char" where
  "lower_char c =
     (case map_of (zip ''ABCDEFGHIJKLMNOPQRSTUVWXYZ'' ''abcdefghijklmnopqrstuvwxyz'') c of
        Some l \<Rightarrow> l
      | None \<Rightarrow> c)"

text \<open>
  The numerals \<^verbatim>\<open>int(s)\<close> and \<^verbatim>\<open>float(s)\<close> read: \<open>digitpart ::= digit (["_"] digit)*\<close>,
  with an optional sign in front.
\<close>

fun digits_acc :: "nat \<Rightarrow> string \<Rightarrow> nat option" where
  "digits_acc n [] = Some n"
| "digits_acc n [c] = (if is_digit c then Some (10 * n + digit_val c) else None)"
| "digits_acc n (c # d # ds) =
     (if is_digit c then digits_acc (10 * n + digit_val c) (d # ds)
      else if c = CHR ''_'' \<and> is_digit d then digits_acc (10 * n + digit_val d) ds
      else None)"

definition digitpart :: "string \<Rightarrow> nat option" where
  "digitpart s =
     (case s of
        [] \<Rightarrow> None
      | c # cs \<Rightarrow> if is_digit c then digits_acc (digit_val c) cs else None)"

definition split_sign :: "string \<Rightarrow> bool \<times> string" where
  "split_sign s =
     (case s of
        [] \<Rightarrow> (False, [])
      | c # cs \<Rightarrow>
          if c = CHR ''-'' then (True, cs)
          else if c = CHR ''+'' then (False, cs)
          else (False, s))"

text \<open>
  \<^verbatim>\<open>int(s)\<close> in base 10; \<open>None\<close> where Python raises \<^verbatim>\<open>ValueError\<close>, which it also
  does for a numeral of more than 4300 digits (the default limit of CPython on the
  conversion of strings to integers).
\<close>

definition max_str_digits :: nat where
  "max_str_digits = 4300"

definition int_of_str :: "string \<Rightarrow> int option" where
  "int_of_str s =
     (case split_sign (strip_number s) of
        (neg, u) \<Rightarrow>
          (case digitpart u of
             None \<Rightarrow> None
           | Some n \<Rightarrow>
               if max_str_digits < length (filter is_digit u) then None
               else Some (if neg then - int n else int n)))"

definition is_exp_mark :: "char \<Rightarrow> bool" where
  "is_exp_mark c = (c = CHR ''e'' \<or> c = CHR ''E'')"

definition float_neg :: "pyfloat \<Rightarrow> pyfloat" where
  "float_neg x = (case x of Fin r \<Rightarrow> Fin (- r) | PInf \<Rightarrow> NInf | NInf \<Rightarrow> PInf | NaN \<Rightarrow> NaN)"

text \<open>
  \<^verbatim>\<open>float(s)\<close> for a string without a decimal point (the caller has removed every
  \<^verbatim>\<open>.\<close>): surrounding white space, a sign, then \<^verbatim>\<open>inf\<close>, \<^verbatim>\<open>infinity\<close> or \<^verbatim>\<open>nan\<close> in any
  case, or a digit part with an optional exponent. \<open>None\<close> where Python raises
  \<^verbatim>\<open>ValueError\<close>.
\<close>

definition scaled :: "nat \<Rightarrow> string \<Rightarrow> real option" where
  "scaled m ex =
     (case ex of
        [] \<Rightarrow> Some (real m)
      | _ # ds \<Rightarrow>
          (case split_sign ds of
             (eneg, ed) \<Rightarrow>
               (case digitpart ed of
                  None \<Rightarrow> None
                | Some e \<Rightarrow> Some (if eneg then real m / 10 ^ e else real m * 10 ^ e))))"

definition float_number :: "string \<Rightarrow> pyfloat option" where
  "float_number u =
     (case digitpart (takeWhile (\<lambda>c. \<not> is_exp_mark c) u) of
        None \<Rightarrow> None
      | Some m \<Rightarrow>
          (case scaled m (dropWhile (\<lambda>c. \<not> is_exp_mark c) u) of
             None \<Rightarrow> None
           | Some x \<Rightarrow> Some (to_double x)))"

definition abs_float_value :: "string \<Rightarrow> pyfloat option" where
  "abs_float_value u =
     (if map lower_char u = ''inf'' \<or> map lower_char u = ''infinity'' then Some PInf
      else if map lower_char u = ''nan'' then Some NaN
      else float_number u)"

definition float_of_str :: "string \<Rightarrow> pyfloat option" where
  "float_of_str s =
     (case split_sign (strip_number s) of
        (neg, u) \<Rightarrow>
          (case abs_float_value u of
             None \<Rightarrow> None
           | Some x \<Rightarrow> Some (if neg then float_neg x else x)))"

section \<open>Field extraction\<close>

text \<open>\<^verbatim>\<open>ZapScraper._safe_str\<close>.\<close>

definition safe_str :: "json \<Rightarrow> string" where
  "safe_str value = (case value of JStr s \<Rightarrow> strip s | _ \<Rightarrow> [])"

text \<open>
  \<^verbatim>\<open>ZapScraper._get_float\<close>. \<^verbatim>\<open>bool\<close> is a subclass of \<^verbatim>\<open>int\<close>, so a boolean takes the
  numeric branch. Only the \<^verbatim>\<open>ValueError\<close> of the string branch is caught.
\<close>

definition get_float :: "json \<Rightarrow> error + pyfloat option" where
  "get_float value =
     (case value of
        JNull \<Rightarrow> Inr None
      | JBool b \<Rightarrow> Inr (Some (Fin (if b then 1 else 0)))
      | JInt n \<Rightarrow> and_then (float_of_int n) (\<lambda>x. Inr (Some x))
      | JFloat x \<Rightarrow> Inr (Some x)
      | JStr s \<Rightarrow> Inr (float_of_str (remove_char CHR '','' (remove_char CHR ''.'' s)))
      | _ \<Rightarrow> Inr None)"

text \<open>
  \<^verbatim>\<open>ZapScraper._get_int\<close>. A boolean is returned as it is (the integer 0 or 1); the
  conversion of a float is outside any \<^verbatim>\<open>try\<close>.
\<close>

definition get_int :: "json \<Rightarrow> error + int option" where
  "get_int value =
     (case value of
        JNull \<Rightarrow> Inr None
      | JBool b \<Rightarrow> Inr (Some (if b then 1 else 0))
      | JInt n \<Rightarrow> Inr (Some n)
      | JFloat x \<Rightarrow> and_then (int_of_float x) (\<lambda>n. Inr (Some n))
      | JStr s \<Rightarrow> Inr (int_of_str (strip s))
      | _ \<Rightarrow> Inr None)"

text \<open>
  \<^verbatim>\<open>ZapScraper._get_first_number\<close>: the first element of a non-empty list that
  \<^verbatim>\<open>_get_float\<close> accepts; otherwise \<^verbatim>\<open>_get_float\<close> of the value itself.
\<close>

fun first_float :: "json list \<Rightarrow> error + pyfloat option" where
  "first_float [] = Inr None"
| "first_float (element # rest) =
     and_then (get_float element)
       (\<lambda>number. case number of Some x \<Rightarrow> Inr (Some x) | None \<Rightarrow> first_float rest)"

definition get_first_number :: "json \<Rightarrow> error + pyfloat option" where
  "get_first_number value =
     (case value of
        JList elements \<Rightarrow>
          and_then (first_float elements)
            (\<lambda>number. case number of Some x \<Rightarrow> Inr (Some x) | None \<Rightarrow> get_float value)
      | _ \<Rightarrow> get_float value)"

text \<open>
  \<^verbatim>\<open>str(item).strip().upper()\<close> for an element of the amenities or features list. For
  an element that is not a string, \<^verbatim>\<open>str\<close> gives the text of a number, \<^verbatim>\<open>None\<close>,
  \<^verbatim>\<open>True\<close>, \<^verbatim>\<open>False\<close> or of a bracketed collection, none of which is one of the two
  markers; such an element is represented by the empty text.
\<close>

definition marker_text :: "json \<Rightarrow> string" where
  "marker_text item = (case item of JStr s \<Rightarrow> map upper_char (strip s) | _ \<Rightarrow> [])"

definition has_marker :: "json \<Rightarrow> bool" where
  "has_marker value =
     (case value of
        JList items \<Rightarrow>
          ''FURNISHED'' \<in> set (map marker_text items) \<or>
          ''MOBILIADO'' \<in> set (map marker_text items)
      | _ \<Rightarrow> False)"

text \<open>\<^verbatim>\<open>ZapScraper._is_furnished\<close>.\<close>

definition is_furnished :: "jdict \<Rightarrow> bool" where
  "is_furnished raw =
     (case dict_get raw ''furnished'' of
        JBool b \<Rightarrow> b
      | _ \<Rightarrow>
          if has_marker (dict_get raw ''amenities'') then True
          else if has_marker (dict_get raw ''features'') then True
          else False)"

text \<open>\<^verbatim>\<open>ZapScraper._select_pricing_info\<close>.\<close>

fun is_rental_dict :: "json \<Rightarrow> bool" where
  "is_rental_dict (JDict d) = (dict_get d ''businessType'' = JStr ''RENTAL'')"
| "is_rental_dict _ = False"

fun is_dict :: "json \<Rightarrow> bool" where
  "is_dict (JDict d) = True"
| "is_dict _ = False"

fun the_dict :: "json \<Rightarrow> jdict" where
  "the_dict (JDict d) = d"
| "the_dict _ = []"

definition select_pricing_info :: "json \<Rightarrow> jdict" where
  "select_pricing_info value =
     (case value of
        JDict d \<Rightarrow> d
      | JList items \<Rightarrow>
          (case find is_rental_dict items of
             Some item \<Rightarrow> the_dict item
           | None \<Rightarrow>
               (case find is_dict items of
                  Some item \<Rightarrow> the_dict item
                | None \<Rightarrow> []))
      | _ \<Rightarrow> [])"

text \<open>\<^verbatim>\<open>ZapScraper._parse_price\<close>: the first of three keys that holds a number.\<close>

fun first_price :: "jdict \<Rightarrow> string list \<Rightarrow> error + pyfloat option" where
  "first_price info [] = Inr None"
| "first_price info (key # keys) =
     and_then (get_float (dict_get info key))
       (\<lambda>price. case price of Some x \<Rightarrow> Inr (Some x) | None \<Rightarrow> first_price info keys)"

definition parse_price :: "jdict \<Rightarrow> error + pyfloat option" where
  "parse_price info = first_price info [''rentalTotalPrice'', ''price'', ''value'']"

text \<open>
  Truth value of a JSON value, as \<^verbatim>\<open>or\<close> and \<^verbatim>\<open>if\<close> test it: \<^verbatim>\<open>None\<close>, \<^verbatim>\<open>False\<close>, zero
  and the empty string, list and dictionary are false.
\<close>

definition truthy :: "json \<Rightarrow> bool" where
  "truthy v =
     (case v of
        JNull \<Rightarrow> False
      | JBool b \<Rightarrow> b
      | JInt n \<Rightarrow> n \<noteq> 0
      | JFloat x \<Rightarrow> float_truthy x
      | JStr s \<Rightarrow> s \<noteq> []
      | JList xs \<Rightarrow> xs \<noteq> []
      | JDict d \<Rightarrow> d \<noteq> [])"

text \<open>\<^verbatim>\<open>ZapScraper._parse_fee\<close>.\<close>

definition parse_fee :: "jdict \<Rightarrow> error + pyfloat option" where
  "parse_fee info =
     (let fee = (if truthy (dict_get info ''monthlyCondoFee'')
                 then dict_get info ''monthlyCondoFee''
                 else dict_get info ''condominium'')
      in get_float fee)"

text \<open>\<^verbatim>\<open>ZapScraper._get_listing_id\<close>: the keys are tried in this order.\<close>

fun first_id :: "jdict \<Rightarrow> string list \<Rightarrow> string option" where
  "first_id raw [] = None"
| "first_id raw (key # keys) =
     (case dict_get raw key of
        JStr s \<Rightarrow> if strip s \<noteq> [] then Some (strip s) else first_id raw keys
      | _ \<Rightarrow> first_id raw keys)"

definition id_keys :: "string list" where
  "id_keys = [''id'', ''listingId'', ''detailId'']"

definition get_listing_id :: "jdict \<Rightarrow> string option" where
  "get_listing_id raw = first_id raw id_keys"

text \<open>\<^verbatim>\<open>ZapScraper._extract_url\<close>.\<close>

definition starts_with_http :: "string \<Rightarrow> bool" where
  "starts_with_http s = (take 4 s = ''http'')"

fun first_url :: "jdict \<Rightarrow> string list \<Rightarrow> string option" where
  "first_url raw [] = None"
| "first_url raw (key # keys) =
     (case dict_get raw key of
        JStr s \<Rightarrow> if starts_with_http s then Some s else first_url raw keys
      | JDict d \<Rightarrow>
          (case dict_get d ''href'' of
             JStr href \<Rightarrow> if starts_with_http href then Some href else first_url raw keys
           | _ \<Rightarrow> first_url raw keys)
      | _ \<Rightarrow> first_url raw keys)"

definition extract_url :: "jdict \<Rightarrow> string" where
  "extract_url raw =
     (case first_url raw [''url'', ''link'', ''detailUrl''] of
        Some u \<Rightarrow> u
      | None \<Rightarrow>
          (case get_listing_id raw of
             Some listing_id \<Rightarrow> ''https://www.zapimoveis.com.br/imovel/'' @ listing_id
           | None \<Rightarrow> ''https://www.zapimoveis.com.br''))"

section \<open>Listings and their normalisation\<close>

text \<open>
  A moment in time (UTC): the calendar date as year, month and day, and the microsecond
  of the day. Two moments are equal exactly when their ISO texts are, and dates are
  ordered as their ISO texts are (lexicographically).
\<close>

type_synonym date = "nat \<times> nat \<times> nat"

datatype datetime = DateTime (date_of: date) (micros: nat)

record Listing =
  listing_id :: string
  title :: string
  neighborhood :: string
  street :: string
  city :: string
  state :: string
  area_m2 :: "pyfloat option"
  bedrooms :: "int option"
  bathrooms :: "int option"
  parking_spaces :: "int option"
  rent_price :: "pyfloat option"
  condo_fee :: "pyfloat option"
  price_per_m2 :: "pyfloat option"
  furnished :: bool
  url :: string
  captured_at :: datetime

text \<open>Truth value of an optional number: \<^verbatim>\<open>None\<close> and zero are false.\<close>

definition opt_float_truthy :: "pyfloat option \<Rightarrow> bool" where
  "opt_float_truthy v = (case v of None \<Rightarrow> False | Some x \<Rightarrow> float_truthy x)"

definition opt_int_truthy :: "int option \<Rightarrow> bool" where
  "opt_int_truthy v = (case v of None \<Rightarrow> False | Some n \<Rightarrow> n \<noteq> 0)"

text \<open>
  Lines 190 to 195 of \<^verbatim>\<open>_normalise_listing\<close>: the quotient is taken when both numbers
  are true; a \<^verbatim>\<open>ZeroDivisionError\<close> of the division is caught.
\<close>

definition compute_price_per_m2 :: "pyfloat option \<Rightarrow> pyfloat option \<Rightarrow> error + pyfloat option" where
  "compute_price_per_m2 area rent =
     (if opt_float_truthy area \<and> opt_float_truthy rent then
        (case (area, rent) of
           (Some a, Some r) \<Rightarrow>
             (case float_div r a of
                Inl ZeroDivisionError \<Rightarrow> Inr None
              | Inl e \<Rightarrow> Inl e
              | Inr q \<Rightarrow> Inr (Some q))
         | _ \<Rightarrow> Inr None)
      else Inr None)"

definition address_of :: "jdict \<Rightarrow> jdict" where
  "address_of raw =
     (let a = dict_get raw ''address'';
          address = (if truthy a then a else JDict [])
      in if is_dict address then the_dict address else [])"

definition title_of :: "jdict \<Rightarrow> string \<Rightarrow> string" where
  "title_of raw nbhood =
     (let t = (if safe_str (dict_get raw ''title'') \<noteq> [] then safe_str (dict_get raw ''title'')
               else safe_str (dict_get raw ''advertiseTitle''))
      in if t = [] then (if nbhood \<noteq> [] then ''Apartamento em '' @ nbhood else ''Apartamento'')
         else t)"

text \<open>
  \<^verbatim>\<open>ZapScraper._normalise_listing\<close>. The argument \<open>now\<close> is what
  \<^verbatim>\<open>datetime.now(timezone.utc)\<close> returns at line 200; the clock is read only when the
  function gets that far. The fields are computed in the order of the source, so the
  first coercion that raises decides the exception.
\<close>

definition normalise_listing :: "datetime \<Rightarrow> jdict \<Rightarrow> error + Listing option" where
  "normalise_listing now raw =
     (case get_listing_id raw of
        None \<Rightarrow> Inr None
      | Some lid \<Rightarrow>
          and_then (get_first_number (dict_get raw ''usableAreas'')) (\<lambda>area.
          and_then (get_int (dict_get raw ''bedrooms'')) (\<lambda>beds.
          and_then (if opt_int_truthy beds then Inr beds
                    else get_int (dict_get raw ''rooms'')) (\<lambda>bedrooms'.
          and_then (get_int (dict_get raw ''bathrooms'')) (\<lambda>bathrooms'.
          and_then (get_int (dict_get raw ''parkingSpaces'')) (\<lambda>parking.
          and_then (parse_price (select_pricing_info (dict_get raw ''pricingInfos''))) (\<lambda>rent.
          and_then (parse_fee (select_pricing_info (dict_get raw ''pricingInfos''))) (\<lambda>fee.
          and_then (compute_price_per_m2 area rent) (\<lambda>ppm2.
            Inr (Some \<lparr>
              listing_id = lid,
              title = title_of raw (safe_str (dict_get (address_of raw) ''neighborhood'')),
              neighborhood = safe_str (dict_get (address_of raw) ''neighborhood''),
              street = safe_str (dict_get (address_of raw) ''street''),
              city = safe_str (dict_get (address_of raw) ''city''),
              state = safe_str (dict_get (address_of raw) ''state''),
              area_m2 = area,
              bedrooms = bedrooms',
              bathrooms = bathrooms',
              parking_spaces = parking,
              rent_price = rent,
              condo_fee = fee,
              price_per_m2 = ppm2,
              furnished = is_furnished raw,
              url = extract_url raw,
              captured_at = now \<rparr>))))))))))"

section \<open>Pagination\<close>

text \<open>
  The scraper object. \<open>transport k request\<close> is the decoded answer to the \<open>k\<close>-th call
  of the transport (counted from 0 over the life of the scraper), or the exception that
  the call or the decoding of its body raises; a request is identified by the three
  parameters of the URL that vary: the neighbourhood's query, the page and the page size.
  \<open>clock k\<close> is the \<open>k\<close>-th reading of the system clock. \<open>sleep d\<close> is what
  \<^verbatim>\<open>time.sleep(d)\<close> does on the platform: nothing but wait, or the exception it raises
  (for a negative delay, or for one the platform cannot wait for).
\<close>

record Neighborhood =
  name :: string
  query :: string

type_synonym request = "string \<times> int \<times> int"

record scraper =
  neighborhoods :: "Neighborhood list"
  page_size :: int
  delay :: pyfloat
  transport :: "nat \<Rightarrow> request \<Rightarrow> error + json"
  clock :: "nat \<Rightarrow> datetime"
  sleep :: "pyfloat \<Rightarrow> error option"

text \<open>
  What a run has done so far: the requests sent, the number of clock readings and of
  sleeps, the listings that \<^verbatim>\<open>_normalise_listing\<close> returned and the listings yielded to
  the consumer.
\<close>

record world =
  requests :: "request list"
  ticks :: nat
  sleeps :: nat
  normalised :: "Listing list"
  yielded :: "Listing list"

definition world0 :: world where
  "world0 = \<lparr> requests = [], ticks = 0, sleeps = 0, normalised = [], yielded = [] \<rparr>"

text \<open>\<^verbatim>\<open>ZapScraper._extract_raw_listings\<close>; \<^verbatim>\<open>payload.get\<close> needs a dictionary.\<close>

fun unwrap_item :: "json \<Rightarrow> jdict list" where
  "unwrap_item (JDict item) =
     (case map_of item ''listing'' of
        Some (JDict inner) \<Rightarrow> [inner]
      | _ \<Rightarrow> [item])"
| "unwrap_item _ = []"

definition extract_raw_listings :: "json \<Rightarrow> error + jdict list" where
  "extract_raw_listings payload =
     (case payload of
        JDict d \<Rightarrow>
          (case dict_get d ''listings'' of
             JList items \<Rightarrow> Inr (concat (map unwrap_item items))
           | _ \<Rightarrow> Inr [])
      | _ \<Rightarrow> Inl AttributeError)"

text \<open>\<^verbatim>\<open>ZapScraper._fetch_page\<close>.\<close>

definition fetch_page :: "scraper \<Rightarrow> Neighborhood \<Rightarrow> int \<Rightarrow> world \<Rightarrow> (error + json) \<times> world" where
  "fetch_page sc nb page w =
     (transport sc (length (requests w)) (query nb, page, page_size sc),
      w\<lparr>requests := requests w @ [(query nb, page, page_size sc)]\<rparr>)"

text \<open>
  The \<^verbatim>\<open>for\<close> loop over the raw listings of one page (lines 136 to 143): the exception
  that stops it, if any, the identifiers seen and the world afterwards.
\<close>

fun emit_page :: "scraper \<Rightarrow> jdict list \<Rightarrow> string set \<Rightarrow> world \<Rightarrow> error option \<times> string set \<times> world" where
  "emit_page sc [] seen w = (None, seen, w)"
| "emit_page sc (raw # rest) seen w =
     (case normalise_listing (clock sc (ticks w)) raw of
        Inl e \<Rightarrow> (Some e, seen, w)
      | Inr None \<Rightarrow> emit_page sc rest seen w
      | Inr (Some listing) \<Rightarrow>
          if listing_id listing \<in> seen
          then emit_page sc rest seen
                 (w\<lparr>ticks := ticks w + 1, normalised := normalised w @ [listing]\<rparr>)
          else emit_page sc rest (insert (listing_id listing) seen)
                 (w\<lparr>ticks := ticks w + 1, normalised := normalised w @ [listing],
                    yielded := yielded w @ [listing]\<rparr>))"

definition over_ceiling :: "int option \<Rightarrow> int \<Rightarrow> bool" where
  "over_ceiling max_pages page = (case max_pages of None \<Rightarrow> False | Some m \<Rightarrow> m < page)"

text \<open>
  The \<^verbatim>\<open>while True\<close> loop of \<^verbatim>\<open>ZapScraper.iterate_listings\<close>, from a page number and a
  set of seen identifiers. The result is the exception that ended the walk, if any, and
  the world afterwards; a walk that never ends has no result.
\<close>

partial_function (option) iterate_from ::
  "scraper \<Rightarrow> Neighborhood \<Rightarrow> int option \<Rightarrow> int \<Rightarrow> string set \<Rightarrow> world \<Rightarrow> (error option \<times> world) option"
where
  "iterate_from sc nb max_pages page seen w =
     (if over_ceiling max_pages page then Some (None, w)
      else
        (case and_then (fst (fetch_page sc nb page w)) extract_raw_listings of
           Inl e \<Rightarrow> Some (Some e, snd (fetch_page sc nb page w))
         | Inr raw_listings \<Rightarrow>
             if raw_listings = [] then Some (None, snd (fetch_page sc nb page w))
             else
               (case emit_page sc raw_listings seen (snd (fetch_page sc nb page w)) of
                  (Some e, seen', w') \<Rightarrow> Some (Some e, w')
                | (None, seen', w') \<Rightarrow>
                    if int (length raw_listings) < page_size sc then Some (None, w')
                    else if float_truthy (delay sc) then
                      (case sleep sc (delay sc) of
                         Some e \<Rightarrow> Some (Some e, w')
                       | None \<Rightarrow>
                           iterate_from sc nb max_pages (page + 1) seen'
                             (w'\<lparr>sleeps := sleeps w' + 1\<rparr>))
                    else iterate_from sc nb max_pages (page + 1) seen' w')))"

definition iterate_listings ::
  "scraper \<Rightarrow> Neighborhood \<Rightarrow> int option \<Rightarrow> world \<Rightarrow> (error option \<times> world) option" where
  "iterate_listings sc nb max_pages w = iterate_from sc nb max_pages 1 {} w"

text \<open>\<^verbatim>\<open>ZapScraper.scrape\<close>, run to exhaustion.\<close>

fun scrape_from ::
  "scraper \<Rightarrow> int option \<Rightarrow> Neighborhood list \<Rightarrow> world \<Rightarrow> (error option \<times> world) option" where
  "scrape_from sc max_pages [] w = Some (None, w)"
| "scrape_from sc max_pages (nb # nbs) w =
     (case iterate_listings sc nb max_pages w of
        None \<Rightarrow> None
      | Some (Some e, w') \<Rightarrow> Some (Some e, w')
      | Some (None, w') \<Rightarrow> scrape_from sc max_pages nbs w')"

definition scrape :: "scraper \<Rightarrow> int option \<Rightarrow> (error option \<times> world) option" where
  "scrape sc max_pages = scrape_from sc max_pages (neighborhoods sc) world0"

text \<open>
  What the walk is meant to yield from the listings it normalises, in the words of its
  description: a listing whose identifier was already seen is skipped, the others are
  kept in order.
\<close>

fun first_occurrences :: "string set \<Rightarrow> Listing list \<Rightarrow> Listing list" where
  "first_occurrences seen [] = []"
| "first_occurrences seen (l # ls) =
     (if listing_id l \<in> seen then first_occurrences seen ls
      else l # first_occurrences (insert (listing_id l) seen) ls)"

text \<open>
  The relation between the world before and after a walk that started with the
  identifiers \<open>seen\<close>: some listings \<open>ns\<close> were normalised, each stamped with the clock
  reading taken for it, and their first occurrences were yielded.
\<close>

definition walk_spec :: "scraper \<Rightarrow> string set \<Rightarrow> world \<Rightarrow> world \<Rightarrow> bool" where
  "walk_spec sc seen w w' =
     (\<exists>ns. normalised w' = normalised w @ ns \<and>
          yielded w' = yielded w @ first_occurrences seen ns \<and>
          ticks w' = ticks w + length ns \<and>
          map captured_at ns = map (clock sc) [ticks w..<ticks w + length ns])"

text \<open>The same for a whole run, where each neighbourhood starts a walk of its own.\<close>

definition run_spec :: "scraper \<Rightarrow> world \<Rightarrow> world \<Rightarrow> bool" where
  "run_spec sc w w' =
     (\<exists>ns ys. normalised w' = normalised w @ ns \<and>
          yielded w' = yielded w @ ys \<and>
          subseq ys ns \<and>
          ticks w' = ticks w + length ns \<and>
          map captured_at ns = map (clock sc) [ticks w..<ticks w + length ns])"

subsection \<open>Two small feeds\<close>

text \<open>
  A feed of one page with two listings, one wrapped under \<^verbatim>\<open>listing\<close> and one not, and
  a scraper for it whose clock advances by one microsecond at each reading.
\<close>

definition example_raw_1 :: jdict where
  "example_raw_1 =
     [(''id'', JStr ''12345''),
      (''title'', JStr ''Apartamento mobiliado''),
      (''address'', JDict [
         (''neighborhood'', JStr ''Pinheiros''),
         (''street'', JStr ''Rua dos Pinheiros''),
         (''city'', JStr ''Sao Paulo''),
         (''state'', JStr ''SP'')]),
      (''usableAreas'', JList [JInt 80]),
      (''bedrooms'', JInt 2),
      (''bathrooms'', JInt 2),
      (''parkingSpaces'', JInt 1),
      (''amenities'', JList [JStr ''POOL'', JStr ''Furnished'']),
      (''pricingInfos'', JList [
         JDict [(''businessType'', JStr ''SALE''), (''price'', JStr ''900000'')],
         JDict [(''businessType'', JStr ''RENTAL''), (''price'', JStr ''4.800''),
                (''monthlyCondoFee'', JStr ''800'')]])]"

definition example_raw_2 :: jdict where
  "example_raw_2 =
     [(''id'', JStr ''67890''),
      (''address'', JDict [(''neighborhood'', JStr ''Moema'')]),
      (''usableAreas'', JList [JStr ''100'']),
      (''rooms'', JInt 3),
      (''furnished'', JBool False),
      (''pricingInfos'', JDict [(''rentalTotalPrice'', JInt 6000)])]"

definition example_page :: json where
  "example_page =
     JDict [(''listings'',
       JList [JDict [(''listing'', JDict example_raw_1)], JDict example_raw_2])]"

definition example_scraper :: scraper where
  "example_scraper =
     \<lparr> neighborhoods = [\<lparr> name = ''Pinheiros'', query = ''Pinheiros'' \<rparr>],
       page_size = 50,
       delay = Fin (3 / 2),
       transport = (\<lambda>k request. if k = 0 then Inr example_page
                                  else Inr (JDict [(''listings'', JList [])])),
       clock = (\<lambda>k. DateTime (2024, 3, 15) k),
       sleep = (\<lambda>d. None) \<rparr>"

definition example_listing_1 :: Listing where
  "example_listing_1 =
     \<lparr> listing_id = ''12345'',
       title = ''Apartamento mobiliado'',
       neighborhood = ''Pinheiros'',
       street = ''Rua dos Pinheiros'',
       city = ''Sao Paulo'',
       state = ''SP'',
       area_m2 = Some (Fin 80),
       bedrooms = Some 2,
       bathrooms = Some 2,
       parking_spaces = Some 1,
       rent_price = Some (Fin 4800),
       condo_fee = Some (Fin 800),
       price_per_m2 = Some (Fin 60),
       furnished = True,
       url = ''https://www.zapimoveis.com.br/imovel/12345'',
       captured_at = DateTime (2024, 3, 15) 0 \<rparr>"

definition example_listing_2 :: Listing where
  "example_listing_2 =
     \<lparr> listing_id = ''67890'',
       title = ''Apartamento em Moema'',
       neighborhood = ''Moema'',
       street = [],
       city = [],
       state = [],
       area_m2 = Some (Fin 100),
       bedrooms = Some 3,
       bathrooms = None,
       parking_spaces = None,
       rent_price = Some (Fin 6000),
       condo_fee = None,
       price_per_m2 = Some (Fin 60),
       furnished = False,
       url = ''https://www.zapimoveis.com.br/imovel/67890'',
       captured_at = DateTime (2024, 3, 15) 1 \<rparr>"

definition example_world :: world where
  "example_world =
     \<lparr> requests = [(''Pinheiros'', 1, 50)],
       ticks = 2,
       sleeps = 0,
       normalised = [example_listing_1, example_listing_2],
       yielded = [example_listing_1, example_listing_2] \<rparr>"

text \<open>
  A feed of two pages of size two, whose second page repeats an identifier of the first
  under another title.
\<close>

definition bare_listing :: "string \<Rightarrow> string \<Rightarrow> nat \<Rightarrow> Listing" where
  "bare_listing ident ttl k =
     \<lparr> listing_id = ident,
       title = ttl,
       neighborhood = [],
       street = [],
       city = [],
       state = [],
       area_m2 = None,
       bedrooms = None,
       bathrooms = None,
       parking_spaces = None,
       rent_price = None,
       condo_fee = None,
       price_per_m2 = None,
       furnished = False,
       url = ''https://www.zapimoveis.com.br/imovel/'' @ ident,
       captured_at = DateTime (2024, 3, 15) k \<rparr>"

definition repeating_scraper :: scraper where
  "repeating_scraper =
     \<lparr> neighborhoods = [\<lparr> name = ''Moema'', query = ''Moema'' \<rparr>],
       page_size = 2,
       delay = Fin (3 / 2),
       transport = (\<lambda>k request.
          if fst (snd request) = 1
          then Inr (JDict [(''listings'', JList [JDict [(''id'', JStr ''a'')],
                                                JDict [(''id'', JStr ''b'')]])])
          else Inr (JDict [(''listings'', JList [JDict [(''id'', JStr ''b''),
                                                       (''title'', JStr ''again'')]])])),
       clock = (\<lambda>k. DateTime (2024, 3, 15) k),
       sleep = (\<lambda>d. None) \<rparr>"

definition repeating_world :: world where
  "repeating_world =
     \<lparr> requests = [(''Moema'', 1, 2), (''Moema'', 2, 2)],
       ticks = 3,
       sleeps = 1,
       normalised = [bare_listing ''a'' ''Apartamento'' 0, bare_listing ''b'' ''Apartamento'' 1,
                     bare_listing ''b'' ''again'' 2],
       yielded = [bare_listing ''a'' ''Apartamento'' 0, bare_listing ''b'' ''Apartamento'' 1] \<rparr>"

section \<open>Persistence\<close>

text \<open>
  The two tables of \<^verbatim>\<open>realstate/storage.py\<close>, each a list of rows in insertion order.
  A \<^verbatim>\<open>TEXT\<close> column that holds \<^verbatim>\<open>captured_at.isoformat()\<close> is represented by the moment
  itself. The surrogate key \<^verbatim>\<open>price_history.id\<close> is read by no query of the program and
  is left out.
\<close>

record snapshot_row =
  s_listing_id :: string
  s_title :: string
  s_neighborhood :: string
  s_street :: string
  s_city :: string
  s_state :: string
  s_area_m2 :: "pyfloat option"
  s_bedrooms :: "int option"
  s_bathrooms :: "int option"
  s_parking_spaces :: "int option"
  s_furnished :: int
  s_url :: string
  first_seen :: datetime
  last_seen :: datetime

record history_row =
  h_listing_id :: string
  h_captured_at :: datetime
  h_rent_price :: "pyfloat option"
  h_price_per_m2 :: "pyfloat option"
  h_condo_fee :: "pyfloat option"
  h_furnished :: int

record database =
  listings :: "snapshot_row list"
  price_history :: "history_row list"


text \<open>
  What the schema of \<^verbatim>\<open>_ensure_schema\<close> enforces: the primary key of \<^verbatim>\<open>listings\<close>, the
  \<^verbatim>\<open>UNIQUE(listing_id, captured_at)\<close> of \<^verbatim>\<open>price_history\<close> and its foreign key.
\<close>

definition history_key :: "history_row \<Rightarrow> string \<times> datetime" where
  "history_key r = (h_listing_id r, h_captured_at r)"

definition valid_database :: "database \<Rightarrow> bool" where
  "valid_database db =
     (distinct (map s_listing_id (listings db)) \<and>
      distinct (map history_key (price_history db)) \<and>
      set (map h_listing_id (price_history db)) \<subseteq> set (map s_listing_id (listings db)))"


definition bind_real :: "pyfloat option \<Rightarrow> pyfloat option" where
  "bind_real v = (case v of Some NaN \<Rightarrow> None | _ \<Rightarrow> v)"


text \<open>
  The first statement of \<^verbatim>\<open>_persist_listing_with_cursor\<close>:
  \<^verbatim>\<open>INSERT INTO listings ... ON CONFLICT(listing_id) DO UPDATE SET ...\<close>.
\<close>

definition update_snapshot :: "snapshot_row \<Rightarrow> snapshot_row \<Rightarrow> snapshot_row" where
  "update_snapshot excluded r =
     r\<lparr> s_title := s_title excluded,
        s_neighborhood := s_neighborhood excluded,
        s_street := s_street excluded,
        s_city := s_city excluded,
        s_state := s_state excluded,
        s_area_m2 := s_area_m2 excluded,
        s_bedrooms := s_bedrooms excluded,
        s_bathrooms := s_bathrooms excluded,
        s_parking_spaces := s_parking_spaces excluded,
        s_furnished := s_furnished excluded,
        s_url := s_url excluded,
        last_seen := last_seen excluded \<rparr>"



text \<open>
  The second statement:
  \<^verbatim>\<open>INSERT INTO price_history ... ON CONFLICT(listing_id, captured_at) DO UPDATE SET ...\<close>.
\<close>

definition update_history :: "history_row \<Rightarrow> history_row \<Rightarrow> history_row" where
  "update_history excluded r =
     r\<lparr> h_rent_price := h_rent_price excluded,
        h_price_per_m2 := h_price_per_m2 excluded,
        h_condo_fee := h_condo_fee excluded,
        h_furnished := h_furnished excluded \<rparr>"












subsection \<open>Reporting queries\<close>

text \<open>
  Addition of doubles, and the quotient of a sum by a positive count, as the aggregate
  \<^verbatim>\<open>AVG\<close> uses them.
\<close>

fun float_add :: "pyfloat \<Rightarrow> pyfloat \<Rightarrow> pyfloat" where
  "float_add (Fin a) (Fin b) = to_double (a + b)"
| "float_add NaN b = NaN"
| "float_add a NaN = NaN"
| "float_add PInf NInf = NaN"
| "float_add NInf PInf = NaN"
| "float_add PInf b = PInf"
| "float_add a PInf = PInf"
| "float_add NInf b = NInf"
| "float_add a NInf = NInf"

definition float_over_count :: "pyfloat \<Rightarrow> nat \<Rightarrow> pyfloat" where
  "float_over_count s n = (case s of Fin x \<Rightarrow> to_double (x / real n) | _ \<Rightarrow> s)"

text \<open>
  \<^verbatim>\<open>AVG(column)\<close> over the rows of a group: a \<^verbatim>\<open>NULL\<close> takes no part; the result is
  \<^verbatim>\<open>NULL\<close> when no value took part, and a NaN result is returned as \<^verbatim>\<open>NULL\<close>.
\<close>

definition avg_step :: "pyfloat \<times> nat \<Rightarrow> pyfloat option \<Rightarrow> pyfloat \<times> nat" where
  "avg_step acc v = (case v of None \<Rightarrow> acc | Some x \<Rightarrow> (float_add (fst acc) x, snd acc + 1))"

definition avg_final :: "pyfloat \<times> nat \<Rightarrow> pyfloat option" where
  "avg_final acc =
     (if snd acc = 0 then None else bind_real (Some (float_over_count (fst acc) (snd acc))))"

definition sql_avg :: "pyfloat option list \<Rightarrow> pyfloat option" where
  "sql_avg vs = avg_final (foldl avg_step (Fin 0, 0) vs)"

record average_row =
  captured_date :: date
  avg_rent_price :: "pyfloat option"
  avg_price_per_m2 :: "pyfloat option"
  listings_count :: nat

text \<open>
  The rows that the \<^verbatim>\<open>FROM ... JOIN ... WHERE\<close> part of
  \<^verbatim>\<open>get_neighborhood_daily_average\<close> selects.
\<close>

definition selected_history :: "database \<Rightarrow> string \<Rightarrow> bool option \<Rightarrow> history_row list" where
  "selected_history db nbhood furnished_filter =
     concat (map (\<lambda>ph.
       concat (map (\<lambda>l.
         if s_listing_id l = h_listing_id ph \<and> s_neighborhood l = nbhood \<and>
            (case furnished_filter of
               None \<Rightarrow> True
             | Some f \<Rightarrow> h_furnished ph = (if f then 1 else 0))
         then [ph] else []) (listings db))) (price_history db))"

definition group_row :: "history_row list \<Rightarrow> date \<Rightarrow> average_row" where
  "group_row rows d =
     \<lparr> captured_date = d,
       avg_rent_price =
         sql_avg (map h_rent_price (filter (\<lambda>ph. date_of (h_captured_at ph) = d) rows)),
       avg_price_per_m2 =
         sql_avg (map h_price_per_m2 (filter (\<lambda>ph. date_of (h_captured_at ph) = d) rows)),
       listings_count = length (filter (\<lambda>ph. date_of (h_captured_at ph) = d) rows) \<rparr>"

text \<open>
  \<^verbatim>\<open>RealEstateDatabase.get_neighborhood_daily_average\<close>: one row for each date among the
  selected rows (\<^verbatim>\<open>GROUP BY captured_date\<close>), by ascending date (\<^verbatim>\<open>ORDER BY\<close>).
\<close>

definition get_neighborhood_daily_average ::
  "database \<Rightarrow> string \<Rightarrow> bool option \<Rightarrow> average_row list" where
  "get_neighborhood_daily_average db nbhood furnished_filter =
     map (group_row (selected_history db nbhood furnished_filter))
       (sort (remdups (map (\<lambda>ph. date_of (h_captured_at ph))
          (selected_history db nbhood furnished_filter))))"

subsection \<open>Notions used to state the properties of the store\<close>






text \<open>
  The mean of the values that are present, as SQL returns it: \<^verbatim>\<open>NULL\<close> for no value,
  and for a sum that is not a number.
\<close>

definition present :: "'a option list \<Rightarrow> 'a list" where
  "present vs = concat (map (\<lambda>v. case v of None \<Rightarrow> [] | Some x \<Rightarrow> [x]) vs)"

definition float_mean :: "pyfloat list \<Rightarrow> pyfloat option" where
  "float_mean xs =
     (if xs = [] then None
      else bind_real (Some (float_over_count (foldl float_add (Fin 0) xs) (length xs))))"

text \<open>
  The history points of a neighbourhood, as the specification words the selection: the
  points of the listings whose snapshot row is in that neighbourhood and, when the
  filter is given, whose furnished flag is the one asked for.
\<close>

definition matching_history :: "database \<Rightarrow> string \<Rightarrow> bool option \<Rightarrow> history_row list" where
  "matching_history db nbhood furnished_filter =
     filter (\<lambda>ph.
       (\<exists>l \<in> set (listings db). s_listing_id l = h_listing_id ph \<and> s_neighborhood l = nbhood) \<and>
       (case furnished_filter of
          None \<Rightarrow> True
        | Some f \<Rightarrow> h_furnished ph = (if f then 1 else 0))) (price_history db)"

text \<open>The history points of a calendar date.\<close>

definition on_date :: "date \<Rightarrow> history_row list \<Rightarrow> history_row list" where
  "on_date d rows = filter (\<lambda>ph. date_of (h_captured_at ph) = d) rows"

subsection \<open>A small store\<close>


definition test_snapshot :: "string \<Rightarrow> nat \<Rightarrow> nat \<Rightarrow> snapshot_row" where
  "test_snapshot ident first_day last_day =
     \<lparr> s_listing_id = ident,
       s_title = ''Apartamento de teste'',
       s_neighborhood = ''Pinheiros'',
       s_street = ''Rua Teste'',
       s_city = ''Sao Paulo'',
       s_state = ''SP'',
       s_area_m2 = Some (Fin 80),
       s_bedrooms = Some 2,
       s_bathrooms = Some 2,
       s_parking_spaces = Some 1,
       s_furnished = 1,
       s_url = ''https://www.zapimoveis.com.br/imovel/'' @ ident,
       first_seen = DateTime (2024, 1, first_day) 43200000000,
       last_seen = DateTime (2024, 1, last_day) 43200000000 \<rparr>"

definition test_history :: "string \<Rightarrow> nat \<Rightarrow> real \<Rightarrow> real option \<Rightarrow> history_row" where
  "test_history ident day rent ppm2 =
     \<lparr> h_listing_id = ident,
       h_captured_at = DateTime (2024, 1, day) 43200000000,
       h_rent_price = Some (Fin rent),
       h_price_per_m2 = map_option Fin ppm2,
       h_condo_fee = Some (Fin 500),
       h_furnished = 1 \<rparr>"

definition test_database :: database where
  "test_database =
     \<lparr> listings = [test_snapshot ''ABC123'' 5 6, test_snapshot ''DEF456'' 5 5],
       price_history =
         [test_history ''ABC123'' 5 5000 (Some (125 / 2)),
          test_history ''ABC123'' 6 5200 (Some 65),
          test_history ''DEF456'' 5 4000 None] \<rparr>"


section \<open>Properties of the field extraction\<close>

lemma float_of_int_small: "\<bar>n\<bar> < 2 ^ 1023 \<Longrightarrow> float_of_int n = Inr (Fin (real_of_int n))"
proof -
  assume "\<bar>n\<bar> < 2 ^ 1023"
  then have "real_of_int \<bar>n\<bar> < real_of_int (2 ^ 1023)"
    by (simp only: of_int_less_iff)
  then have "\<bar>real_of_int n\<bar> < 2 ^ 1023" by simp
  moreover have "(2::real) ^ 1023 \<le> dbl_overflow" by (simp add: dbl_overflow_def)
  ultimately show ?thesis by (simp add: float_of_int_def)
qed

lemma get_float_returns:
  assumes "\<And>n. value = JInt n \<Longrightarrow> \<bar>real_of_int n\<bar> < dbl_overflow"
  shows "\<exists>r. get_float value = Inr r"
  using assms by (cases "value") (auto simp: get_float_def float_of_int_def and_then_def)

lemma get_float_error: "get_float value = Inl e \<Longrightarrow> e = OverflowError"
  by (cases "value") (auto simp: get_float_def float_of_int_def and_then_def split: if_splits)

text \<open>
  Claim C8: the float coercion is total and never raises, whatever the input.
  \<^verbatim>\<open>_get_float\<close> converts an \<^verbatim>\<open>int\<close> with \<^verbatim>\<open>float(value)\<close> outside any \<^verbatim>\<open>try\<close>, and that
  conversion raises \<^verbatim>\<open>OverflowError\<close> for an integer beyond the range of a double, which
  \<^verbatim>\<open>json.loads\<close> produces from a long enough integer literal. The coercion of the integer
  \<open>2^1024\<close> ends in that exception, not in an absent result.
\<close>

theorem get_float_raises_on_huge_int: "get_float (JInt (2 ^ 1024)) = Inl OverflowError"
  by (simp add: get_float_def float_of_int_def dbl_overflow_def and_then_def)

section \<open>Properties of the pagination\<close>

lemma first_occurrences_append:
  "first_occurrences seen (xs @ ys) =
     first_occurrences seen xs @ first_occurrences (seen \<union> listing_id ` set xs) ys"
  by (induction xs arbitrary: seen) (auto simp: insert_absorb)

lemma first_occurrences_ids:
  "listing_id ` set (first_occurrences seen ns) = listing_id ` set ns - seen"
  by (induction ns arbitrary: seen) auto

lemma first_occurrences_distinct: "distinct (map listing_id (first_occurrences seen ns))"
proof (induction ns arbitrary: seen)
  case Nil
  show ?case by simp
next
  case (Cons l ls)
  have "listing_id l \<notin> listing_id ` set (first_occurrences (insert (listing_id l) seen) ls)"
    by (simp add: first_occurrences_ids)
  with Cons show ?case by simp
qed

lemma first_occurrences_subseq: "subseq (first_occurrences seen ns) ns"
  by (induction ns arbitrary: seen) auto

lemma first_occurrences_length:
  "length (first_occurrences seen ns) = card (listing_id ` set ns - seen)"
proof -
  have "length (first_occurrences seen ns) = length (map listing_id (first_occurrences seen ns))"
    by simp
  also have "\<dots> = card (set (map listing_id (first_occurrences seen ns)))"
    by (rule distinct_card [symmetric]) (rule first_occurrences_distinct)
  also have "\<dots> = card (listing_id ` set ns - seen)"
    by (simp add: first_occurrences_ids)
  finally show ?thesis .
qed

lemma first_occurrences_first:
  "y \<in> set (first_occurrences seen ns) \<Longrightarrow>
     \<exists>i<length ns. ns ! i = y \<and> listing_id y \<notin> seen \<and> (\<forall>j<i. listing_id (ns ! j) \<noteq> listing_id y)"
proof (induction ns arbitrary: seen)
  case Nil
  then show ?case by simp
next
  case (Cons l ls)
  show ?case
  proof (cases "listing_id l \<in> seen")
    case True
    with Cons.prems have "y \<in> set (first_occurrences seen ls)" by simp
    from Cons.IH [OF this] obtain i where i: "i < length ls" "ls ! i = y" "listing_id y \<notin> seen"
      "\<forall>j<i. listing_id (ls ! j) \<noteq> listing_id y" by blast
    have "\<forall>j<Suc i. listing_id ((l # ls) ! j) \<noteq> listing_id y"
    proof (intro allI impI)
      fix j assume "j < Suc i"
      then show "listing_id ((l # ls) ! j) \<noteq> listing_id y"
        using i True by (cases j) auto
    qed
    with i show ?thesis by (intro exI [of _ "Suc i"]) simp
  next
    case False
    with Cons.prems consider "y = l" | "y \<in> set (first_occurrences (insert (listing_id l) seen) ls)"
      by auto
    then show ?thesis
    proof cases
      case 1
      with False show ?thesis by (intro exI [of _ 0]) simp
    next
      case 2
      from Cons.IH [OF this] obtain i where i: "i < length ls" "ls ! i = y"
        "listing_id y \<notin> insert (listing_id l) seen"
        "\<forall>j<i. listing_id (ls ! j) \<noteq> listing_id y" by blast
      have "\<forall>j<Suc i. listing_id ((l # ls) ! j) \<noteq> listing_id y"
      proof (intro allI impI)
        fix j assume "j < Suc i"
        then show "listing_id ((l # ls) ! j) \<noteq> listing_id y"
          using i by (cases j) auto
      qed
      with i show ?thesis by (intro exI [of _ "Suc i"]) simp
    qed
  qed
qed

lemma normalise_listing_captured_at:
  "normalise_listing now raw = Inr (Some l) \<Longrightarrow> captured_at l = now"
  by (auto simp: normalise_listing_def and_then_def split: option.splits sum.splits)


lemma emit_page_spec:
  "emit_page sc raws seen w = (e, seen', w') \<Longrightarrow>
     \<exists>ns. normalised w' = normalised w @ ns \<and>
          yielded w' = yielded w @ first_occurrences seen ns \<and>
          seen' = seen \<union> listing_id ` set ns \<and>
          ticks w' = ticks w + length ns \<and>
          map captured_at ns = map (clock sc) [ticks w..<ticks w + length ns]"
proof (induction raws arbitrary: seen w)
  case Nil
  then show ?case by simp
next
  case (Cons raw rest)
  show ?case
  proof (cases "normalise_listing (clock sc (ticks w)) raw")
    case (Inl err)
    with Cons.prems show ?thesis by simp
  next
    case (Inr res)
    show ?thesis
    proof (cases res)
      case None
      with Inr Cons.prems have "emit_page sc rest seen w = (e, seen', w')" by simp
      from Cons.IH [OF this] show ?thesis .
    next
      case (Some l)
      have stamp: "captured_at l = clock sc (ticks w)"
        using Inr Some by (simp add: normalise_listing_captured_at)
      have upt: "\<And>n. [ticks w..<ticks w + Suc n] = ticks w # [Suc (ticks w)..<Suc (ticks w) + n]"
        by (simp add: upt_conv_Cons)
      show ?thesis
      proof (cases "listing_id l \<in> seen")
        case True
        with Inr Some Cons.prems have
          "emit_page sc rest seen (w\<lparr>ticks := ticks w + 1, normalised := normalised w @ [l]\<rparr>) = (e, seen', w')"
          by simp
        from Cons.IH [OF this] obtain ns where ns:
          "normalised w' = (normalised w @ [l]) @ ns"
          "yielded w' = yielded w @ first_occurrences seen ns"
          "seen' = seen \<union> listing_id ` set ns"
          "ticks w' = ticks w + 1 + length ns"
          "map captured_at ns = map (clock sc) [ticks w + 1..<ticks w + 1 + length ns]"
          by auto
        show ?thesis
          using ns True stamp upt by (intro exI [of _ "l # ns"]) auto
      next
        case False
        with Inr Some Cons.prems have
          "emit_page sc rest (insert (listing_id l) seen)
             (w\<lparr>ticks := ticks w + 1, normalised := normalised w @ [l],
                yielded := yielded w @ [l]\<rparr>) = (e, seen', w')"
          by simp
        from Cons.IH [OF this] obtain ns where ns:
          "normalised w' = (normalised w @ [l]) @ ns"
          "yielded w' = (yielded w @ [l]) @ first_occurrences (insert (listing_id l) seen) ns"
          "seen' = insert (listing_id l) seen \<union> listing_id ` set ns"
          "ticks w' = ticks w + 1 + length ns"
          "map captured_at ns = map (clock sc) [ticks w + 1..<ticks w + 1 + length ns]"
          by auto
        show ?thesis
          using ns False stamp upt by (intro exI [of _ "l # ns"]) auto
      qed
    qed
  qed
qed

lemma walk_spec_refl: "walk_spec sc seen w w"
  by (simp add: walk_spec_def)

lemma walk_spec_requests: "walk_spec sc seen (w\<lparr>requests := r\<rparr>) w' = walk_spec sc seen w w'"
  by (simp add: walk_spec_def)

lemma walk_spec_sleeps: "walk_spec sc seen w w' \<Longrightarrow> walk_spec sc seen w (w'\<lparr>sleeps := n\<rparr>)"
  by (simp add: walk_spec_def)

lemma walk_spec_emit:
  "emit_page sc raws seen w = (e, seen', w') \<Longrightarrow> walk_spec sc seen w w'"
  using emit_page_spec [of sc raws seen w e seen' w'] by (auto simp: walk_spec_def)

lemma walk_spec_trans:
  assumes "emit_page sc raws seen w = (e, seen', w1)" and "walk_spec sc seen' w1 w2"
  shows "walk_spec sc seen w w2"
proof -
  from emit_page_spec [OF assms(1)] obtain ns where ns:
    "normalised w1 = normalised w @ ns" "yielded w1 = yielded w @ first_occurrences seen ns"
    "seen' = seen \<union> listing_id ` set ns" "ticks w1 = ticks w + length ns"
    "map captured_at ns = map (clock sc) [ticks w..<ticks w + length ns]" by blast
  from assms(2) obtain ms where ms:
    "normalised w2 = normalised w1 @ ms" "yielded w2 = yielded w1 @ first_occurrences seen' ms"
    "ticks w2 = ticks w1 + length ms"
    "map captured_at ms = map (clock sc) [ticks w1..<ticks w1 + length ms]"
    by (auto simp: walk_spec_def)
  have split: "[ticks w..<ticks w + length ns + length ms] =
        [ticks w..<ticks w + length ns] @ [ticks w + length ns..<ticks w + length ns + length ms]"
    by (rule upt_add_eq_append) simp
  have stamps: "map captured_at (ns @ ms) = map (clock sc) [ticks w..<ticks w + length (ns @ ms)]"
  proof -
    have "map captured_at (ns @ ms) =
          map (clock sc) [ticks w..<ticks w + length ns] @
          map (clock sc) [ticks w + length ns..<ticks w + length ns + length ms]"
      using ns(4,5) ms(4) by simp
    also have "\<dots> = map (clock sc) [ticks w..<ticks w + length ns + length ms]"
      by (simp only: split map_append)
    also have "ticks w + length ns + length ms = ticks w + length (ns @ ms)"
      by simp
    finally show ?thesis .
  qed
  have "normalised w2 = normalised w @ (ns @ ms)"
    using ns(1) ms(1) by simp
  moreover have "yielded w2 = yielded w @ first_occurrences seen (ns @ ms)"
    using ns(2,3) ms(2) by (simp add: first_occurrences_append)
  moreover have "ticks w2 = ticks w + length (ns @ ms)"
    using ns(4) ms(3) by simp
  ultimately show ?thesis
    unfolding walk_spec_def using stamps by blast
qed

lemma iterate_from_spec:
  assumes "iterate_from sc nb max_pages page seen w = Some y"
  shows "walk_spec sc seen w (snd y)"
  using assms
proof (induction sc nb max_pages page seen w y
    rule: iterate_from.raw_induct [rotated 1, consumes 1, case_names 1])
  case (1 walk sc nb max_pages page seen w y)
  let ?w1 = "snd (fetch_page sc nb page w)"
  have w1: "?w1 = w\<lparr>requests := requests w @ [(query nb, page, page_size sc)]\<rparr>"
    by (simp add: fetch_page_def)
  have start: "walk_spec sc seen w ?w1"
    by (simp add: w1 walk_spec_def)
  show ?case
  proof (cases "over_ceiling max_pages page")
    case True
    with 1(2) show ?thesis by (auto simp: walk_spec_refl)
  next
    case False
    note ceiling = this
    show ?thesis
    proof (cases "and_then (fst (fetch_page sc nb page w)) extract_raw_listings")
      case (Inl err)
      with 1(2) ceiling start show ?thesis by auto
    next
      case (Inr raws)
      show ?thesis
      proof (cases "raws = []")
        case True
        with 1(2) ceiling Inr start show ?thesis by auto
      next
        case False
        obtain e seen' w' where emit: "emit_page sc raws seen ?w1 = (e, seen', w')"
          by (cases "emit_page sc raws seen ?w1") auto
        have page: "walk_spec sc seen w w'"
          using walk_spec_emit [OF emit] by (simp add: w1 walk_spec_requests)
        show ?thesis
        proof (cases e)
          case (Some err)
          with 1(2) ceiling Inr False emit page show ?thesis by auto
        next
          case None
          show ?thesis
          proof (cases "int (length raws) < page_size sc")
            case True
            with 1(2) ceiling Inr False emit None page show ?thesis by auto
          next
            case full: False
            show ?thesis
            proof (cases "float_truthy (delay sc)")
              case nap: True
              show ?thesis
              proof (cases "sleep sc (delay sc)")
                case (Some err)
                with 1(2) ceiling Inr False emit None full nap page show ?thesis by auto
              next
                case no_err: None
                from 1(2) ceiling Inr False emit None full nap no_err
                have "walk sc nb max_pages (page + 1) seen' (w'\<lparr>sleeps := sleeps w' + 1\<rparr>) = Some y"
                  by simp
                from 1(1) [OF this]
                have "walk_spec sc seen' (w'\<lparr>sleeps := sleeps w' + 1\<rparr>) (snd y)" .
                then have rest: "walk_spec sc seen' w' (snd y)"
                  by (simp add: walk_spec_def)
                show ?thesis
                  using walk_spec_trans [OF emit rest] by (simp add: w1 walk_spec_requests)
              qed
            next
              case no_nap: False
              from 1(2) ceiling Inr False emit None full no_nap
              have "walk sc nb max_pages (page + 1) seen' w' = Some y"
                by simp
              from 1(1) [OF this] have rest: "walk_spec sc seen' w' (snd y)" .
              show ?thesis
                using walk_spec_trans [OF emit rest] by (simp add: w1 walk_spec_requests)
            qed
          qed
        qed
      qed
    qed
  qed
qed

lemma iterate_from_last_page:
  assumes "\<not> over_ceiling max_pages page"
    and "transport sc (length (requests w)) (query nb, page, page_size sc) = Inr payload"
    and "extract_raw_listings payload = Inr raws"
    and "int (length raws) < page_size sc \<or> raws = []"
  shows "iterate_from sc nb max_pages page seen w =
           Some (fst (emit_page sc raws seen
                   (w\<lparr>requests := requests w @ [(query nb, page, page_size sc)]\<rparr>)),
                 snd (snd (emit_page sc raws seen
                   (w\<lparr>requests := requests w @ [(query nb, page, page_size sc)]\<rparr>))))"
proof -
  let ?w1 = "w\<lparr>requests := requests w @ [(query nb, page, page_size sc)]\<rparr>"
  obtain e seen' w' where emit: "emit_page sc raws seen ?w1 = (e, seen', w')"
    by (cases "emit_page sc raws seen ?w1") auto
  have fetch: "and_then (fst (fetch_page sc nb page w)) extract_raw_listings = Inr raws"
    using assms(2,3) by (simp add: fetch_page_def and_then_def)
  have w1: "snd (fetch_page sc nb page w) = ?w1"
    by (simp add: fetch_page_def)
  show ?thesis
  proof (cases "raws = []")
    case True
    with assms(1) fetch w1 show ?thesis
      by (subst iterate_from.simps) simp
  next
    case False
    with assms(4) have "int (length raws) < page_size sc" by simp
    with False assms(1) fetch w1 emit show ?thesis
      by (subst iterate_from.simps) (simp split: option.splits)
  qed
qed

lemma iterate_from_next_page:
  assumes "\<not> over_ceiling max_pages page"
    and "transport sc (length (requests w)) (query nb, page, page_size sc) = Inr payload"
    and "extract_raw_listings payload = Inr raws"
    and "raws \<noteq> []"
    and "\<not> int (length raws) < page_size sc"
    and "emit_page sc raws seen
           (w\<lparr>requests := requests w @ [(query nb, page, page_size sc)]\<rparr>) = (None, seen', w')"
    and "float_truthy (delay sc)"
    and "sleep sc (delay sc) = None"
  shows "iterate_from sc nb max_pages page seen w =
           iterate_from sc nb max_pages (page + 1) seen' (w'\<lparr>sleeps := sleeps w' + 1\<rparr>)"
proof -
  have fetch: "and_then (fst (fetch_page sc nb page w)) extract_raw_listings = Inr raws"
    using assms(2,3) by (simp add: fetch_page_def and_then_def)
  have w1: "snd (fetch_page sc nb page w) =
              w\<lparr>requests := requests w @ [(query nb, page, page_size sc)]\<rparr>"
    by (simp add: fetch_page_def)
  show ?thesis
    using assms(1,4,5,6,7,8) fetch w1
    by (subst iterate_from.simps) simp
qed


subsection \<open>The feed of one page, evaluated\<close>

lemmas str_defs = strip_def is_space_def strip_number_def is_number_space_def max_str_digits_def
  remove_char_def is_digit_def digit_val_def upper_char_def
  lower_char_def digitpart_def split_sign_def int_of_str_def is_exp_mark_def float_neg_def scaled_def
  float_number_def abs_float_value_def float_of_str_def
lemmas num_defs = dbl_overflow_def dbl_underflow_def to_double_def float_of_int_def int_of_float_def
  float_truthy_def
lemmas field_defs = dict_get_def and_then_def safe_str_def get_float_def get_int_def get_first_number_def
  marker_text_def has_marker_def is_furnished_def select_pricing_info_def parse_price_def truthy_def
  parse_fee_def id_keys_def get_listing_id_def starts_with_http_def extract_url_def
  opt_float_truthy_def opt_int_truthy_def compute_price_per_m2_def address_of_def title_of_def
  normalise_listing_def

lemma example_normalise_1:
  "normalise_listing now example_raw_1 = Inr (Some (example_listing_1\<lparr>captured_at := now\<rparr>))"
  by (simp add: example_raw_1_def example_listing_1_def str_defs num_defs field_defs)

lemma example_normalise_2:
  "normalise_listing now example_raw_2 = Inr (Some (example_listing_2\<lparr>captured_at := now\<rparr>))"
  by (simp add: example_raw_2_def example_listing_2_def str_defs num_defs field_defs)

lemma example_extract:
  "extract_raw_listings example_page = Inr [example_raw_1, example_raw_2]"
  by (simp add: example_page_def extract_raw_listings_def dict_get_def example_raw_2_def)

lemma example_emit:
  "emit_page example_scraper [example_raw_1, example_raw_2] {}
     (world0\<lparr>requests := requests world0 @ [(''Pinheiros'', 1, 50)]\<rparr>) =
   (None, {''12345'', ''67890''}, example_world)"
  by (simp add: example_scraper_def world0_def example_world_def example_normalise_1
      example_normalise_2 example_listing_1_def example_listing_2_def insert_commute)

lemma example_walk:
  "iterate_listings example_scraper \<lparr> name = ''Pinheiros'', query = ''Pinheiros'' \<rparr> None world0 =
     Some (None, example_world)"
proof -
  have step: "iterate_from example_scraper \<lparr> name = ''Pinheiros'', query = ''Pinheiros'' \<rparr> None 1 {} world0 =
     Some (fst (emit_page example_scraper [example_raw_1, example_raw_2] {}
                 (world0\<lparr>requests := requests world0 @
                    [(query \<lparr> name = ''Pinheiros'', query = ''Pinheiros'' \<rparr>, 1, page_size example_scraper)]\<rparr>)),
           snd (snd (emit_page example_scraper [example_raw_1, example_raw_2] {}
                 (world0\<lparr>requests := requests world0 @
                    [(query \<lparr> name = ''Pinheiros'', query = ''Pinheiros'' \<rparr>, 1, page_size example_scraper)]\<rparr>))))"
    by (rule iterate_from_last_page [where payload = example_page])
       (simp_all add: over_ceiling_def example_scraper_def world0_def example_extract)
  have request: "(query \<lparr> name = ''Pinheiros'', query = ''Pinheiros'' \<rparr>, 1, page_size example_scraper) =
      (''Pinheiros'', 1, 50)"
    by (simp add: example_scraper_def)
  show ?thesis
    unfolding iterate_listings_def step request example_emit by simp
qed

lemma example_scrape: "scrape example_scraper None = Some (None, example_world)"
proof -
  have "neighborhoods example_scraper = [\<lparr> name = ''Pinheiros'', query = ''Pinheiros'' \<rparr>]"
    by (simp add: example_scraper_def)
  then show ?thesis
    by (simp add: scrape_def example_walk)
qed

subsection \<open>The feed of two pages, evaluated\<close>

lemma repeating_normalise_a:
  "normalise_listing (DateTime (2024, 3, 15) k) [(''id'', JStr ''a'')] = Inr (Some (bare_listing ''a'' ''Apartamento'' k))"
  by (simp add: bare_listing_def str_defs num_defs field_defs)

lemma repeating_normalise_b:
  "normalise_listing (DateTime (2024, 3, 15) k) [(''id'', JStr ''b'')] = Inr (Some (bare_listing ''b'' ''Apartamento'' k))"
  by (simp add: bare_listing_def str_defs num_defs field_defs)

lemma repeating_normalise_again:
  "normalise_listing (DateTime (2024, 3, 15) k) [(''id'', JStr ''b''), (''title'', JStr ''again'')] =
     Inr (Some (bare_listing ''b'' ''again'' k))"
  by (simp add: bare_listing_def str_defs num_defs field_defs)

lemma bare_listing_id: "listing_id (bare_listing ident ttl k) = ident"
  by (simp add: bare_listing_def)

lemma repeating_emit_1:
  "emit_page repeating_scraper [[(''id'', JStr ''a'')], [(''id'', JStr ''b'')]] {}
     (world0\<lparr>requests := requests world0 @ [(''Moema'', 1, 2)]\<rparr>) =
   (None, {''a'', ''b''},
    \<lparr> requests = [(''Moema'', 1, 2)], ticks = 2, sleeps = 0,
      normalised = [bare_listing ''a'' ''Apartamento'' 0, bare_listing ''b'' ''Apartamento'' 1],
      yielded = [bare_listing ''a'' ''Apartamento'' 0, bare_listing ''b'' ''Apartamento'' 1] \<rparr>)"
  by (simp add: repeating_scraper_def world0_def repeating_normalise_a repeating_normalise_b
      bare_listing_id insert_commute)

lemma repeating_emit_2:
  "emit_page repeating_scraper [[(''id'', JStr ''b''), (''title'', JStr ''again'')]] {''a'', ''b''}
     (\<lparr> requests = [(''Moema'', 1, 2)], ticks = 2, sleeps = 1,
      normalised = [bare_listing ''a'' ''Apartamento'' 0, bare_listing ''b'' ''Apartamento'' 1],
      yielded = [bare_listing ''a'' ''Apartamento'' 0, bare_listing ''b'' ''Apartamento'' 1] \<rparr>
      \<lparr>requests := [(''Moema'', 1, 2)] @ [(''Moema'', 2, 2)]\<rparr>) =
   (None, {''a'', ''b''}, repeating_world)"
  by (simp add: repeating_scraper_def repeating_world_def repeating_normalise_again bare_listing_id)

lemma repeating_walk:
  "iterate_listings repeating_scraper \<lparr> name = ''Moema'', query = ''Moema'' \<rparr> None world0 =
     Some (None, repeating_world)"
proof -
  let ?nb = "\<lparr> name = ''Moema'', query = ''Moema'' \<rparr>"
  let ?w1 = "\<lparr> requests = [(''Moema'', 1, 2)], ticks = 2, sleeps = 0,
      normalised = [bare_listing ''a'' ''Apartamento'' 0, bare_listing ''b'' ''Apartamento'' 1],
      yielded = [bare_listing ''a'' ''Apartamento'' 0, bare_listing ''b'' ''Apartamento'' 1] \<rparr>"
  have req1: "(query ?nb, 1, page_size repeating_scraper) = (''Moema'', 1, 2)"
    by (simp add: repeating_scraper_def)
  have req2: "(query ?nb, 1 + 1, page_size repeating_scraper) = (''Moema'', 2, 2)"
    by (simp add: repeating_scraper_def)
  have first: "iterate_from repeating_scraper ?nb None 1 {} world0 =
      iterate_from repeating_scraper ?nb None (1 + 1) {''a'', ''b''} (?w1\<lparr>sleeps := sleeps ?w1 + 1\<rparr>)"
  proof (rule iterate_from_next_page)
    show "\<not> over_ceiling None 1" by (simp add: over_ceiling_def)
    show "transport repeating_scraper (length (requests world0)) (query ?nb, 1, page_size repeating_scraper)
        = Inr (JDict [(''listings'', JList [JDict [(''id'', JStr ''a'')], JDict [(''id'', JStr ''b'')]])])"
      by (simp add: repeating_scraper_def)
    show "extract_raw_listings (JDict [(''listings'', JList [JDict [(''id'', JStr ''a'')], JDict [(''id'', JStr ''b'')]])])
        = Inr [[(''id'', JStr ''a'')], [(''id'', JStr ''b'')]]"
      by (simp add: extract_raw_listings_def dict_get_def)
    show "[[(''id'', JStr ''a'')], [(''id'', JStr ''b'')]] \<noteq> []" by simp
    show "\<not> int (length [[(''id'', JStr ''a'')], [(''id'', JStr ''b'')]]) < page_size repeating_scraper"
      by (simp add: repeating_scraper_def)
    show "emit_page repeating_scraper [[(''id'', JStr ''a'')], [(''id'', JStr ''b'')]] {}
           (world0\<lparr>requests := requests world0 @ [(query ?nb, 1, page_size repeating_scraper)]\<rparr>) =
          (None, {''a'', ''b''}, ?w1)"
      unfolding req1 by (rule repeating_emit_1)
    show "float_truthy (delay repeating_scraper)"
      by (simp add: repeating_scraper_def float_truthy_def)
    show "sleep repeating_scraper (delay repeating_scraper) = None"
      by (simp add: repeating_scraper_def)
  qed
  let ?w2 = "?w1\<lparr>sleeps := sleeps ?w1 + 1\<rparr>"
  have w2: "?w2 = \<lparr> requests = [(''Moema'', 1, 2)], ticks = 2, sleeps = 1,
      normalised = [bare_listing ''a'' ''Apartamento'' 0, bare_listing ''b'' ''Apartamento'' 1],
      yielded = [bare_listing ''a'' ''Apartamento'' 0, bare_listing ''b'' ''Apartamento'' 1] \<rparr>"
    by simp
  have second: "iterate_from repeating_scraper ?nb None (1 + 1) {''a'', ''b''} ?w2 =
      Some (fst (emit_page repeating_scraper [[(''id'', JStr ''b''), (''title'', JStr ''again'')]] {''a'', ''b''}
                  (?w2\<lparr>requests := requests ?w2 @ [(query ?nb, 1 + 1, page_size repeating_scraper)]\<rparr>)),
            snd (snd (emit_page repeating_scraper [[(''id'', JStr ''b''), (''title'', JStr ''again'')]] {''a'', ''b''}
                  (?w2\<lparr>requests := requests ?w2 @ [(query ?nb, 1 + 1, page_size repeating_scraper)]\<rparr>))))"
    by (rule iterate_from_last_page
         [where payload = "JDict [(''listings'', JList [JDict [(''id'', JStr ''b''), (''title'', JStr ''again'')]])]"])
       (simp_all add: over_ceiling_def repeating_scraper_def extract_raw_listings_def dict_get_def)
  have reqs: "requests ?w2 = [(''Moema'', 1, 2)]" by simp
  show ?thesis
    unfolding iterate_listings_def first second req2 reqs
    unfolding w2 repeating_emit_2 by simp
qed

subsection \<open>Walks and runs\<close>

lemma walk_spec_run: "walk_spec sc seen w w' \<Longrightarrow> run_spec sc w w'"
  unfolding walk_spec_def run_spec_def
  using first_occurrences_subseq by blast

lemma run_spec_refl: "run_spec sc w w"
  by (simp add: run_spec_def)

lemma run_spec_trans:
  assumes "run_spec sc w w1" and "run_spec sc w1 w2"
  shows "run_spec sc w w2"
proof -
  from assms(1) obtain ns ys where ns:
    "normalised w1 = normalised w @ ns" "yielded w1 = yielded w @ ys" "subseq ys ns"
    "ticks w1 = ticks w + length ns"
    "map captured_at ns = map (clock sc) [ticks w..<ticks w + length ns]"
    unfolding run_spec_def by blast
  from assms(2) obtain ms zs where ms:
    "normalised w2 = normalised w1 @ ms" "yielded w2 = yielded w1 @ zs" "subseq zs ms"
    "ticks w2 = ticks w1 + length ms"
    "map captured_at ms = map (clock sc) [ticks w1..<ticks w1 + length ms]"
    unfolding run_spec_def by blast
  have split: "[ticks w..<ticks w + length ns + length ms] =
        [ticks w..<ticks w + length ns] @ [ticks w + length ns..<ticks w + length ns + length ms]"
    by (rule upt_add_eq_append) simp
  have stamps: "map captured_at (ns @ ms) = map (clock sc) [ticks w..<ticks w + length (ns @ ms)]"
  proof -
    have "map captured_at (ns @ ms) =
          map (clock sc) [ticks w..<ticks w + length ns] @
          map (clock sc) [ticks w + length ns..<ticks w + length ns + length ms]"
      using ns(4,5) ms(5) by simp
    also have "\<dots> = map (clock sc) [ticks w..<ticks w + length ns + length ms]"
      by (simp only: split map_append)
    also have "ticks w + length ns + length ms = ticks w + length (ns @ ms)"
      by simp
    finally show ?thesis .
  qed
  have "normalised w2 = normalised w @ (ns @ ms)"
    using ns(1) ms(1) by simp
  moreover have "yielded w2 = yielded w @ (ys @ zs)"
    using ns(2) ms(2) by simp
  moreover have "subseq (ys @ zs) (ns @ ms)"
    using ns(3) ms(3) by (rule list_emb_append_mono)
  moreover have "ticks w2 = ticks w + length (ns @ ms)"
    using ns(4) ms(4) by simp
  ultimately show ?thesis
    unfolding run_spec_def using stamps by blast
qed

lemma scrape_from_spec:
  "scrape_from sc max_pages nbs w = Some (raised, w') \<Longrightarrow> run_spec sc w w'"
proof (induction nbs arbitrary: w)
  case Nil
  then show ?case by (simp add: run_spec_refl)
next
  case (Cons nb nbs)
  from Cons.prems obtain r w1 where walk: "iterate_listings sc nb max_pages w = Some (r, w1)"
    by (auto split: option.splits)
  have first: "run_spec sc w w1"
    using iterate_from_spec [of sc nb max_pages 1 "{}" w "(r, w1)"] walk
    by (simp add: iterate_listings_def walk_spec_run)
  show ?case
  proof (cases r)
    case (Some e)
    with Cons.prems walk first show ?thesis by simp
  next
    case None
    with Cons.prems walk have "scrape_from sc max_pages nbs w1 = Some (raised, w')" by simp
    from Cons.IH [OF this] first show ?thesis by (blast intro: run_spec_trans)
  qed
qed

text \<open>
  Claim C7: within one walk no two yielded listings share an identifier; a later record
  with an identifier already yielded is dropped, the first occurrence is the one kept, and
  as many listings are yielded as there are distinct identifiers among the normalised
  records. Here \<open>ys\<close> are the listings the walk yields and \<open>ns\<close> the listings its
  normalisations return, in order.
\<close>

theorem walk_yields_each_identifier_once:
  assumes "iterate_listings sc nb max_pages w = Some (raised, w')"
  shows "\<exists>ys ns. yielded w' = yielded w @ ys \<and> normalised w' = normalised w @ ns \<and>
           distinct (map listing_id ys) \<and>
           listing_id ` set ys = listing_id ` set ns \<and>
           length ys = card (listing_id ` set ns) \<and>
           subseq ys ns \<and>
           (\<forall>y \<in> set ys. \<exists>i<length ns. ns ! i = y \<and>
               (\<forall>j<i. listing_id (ns ! j) \<noteq> listing_id y))"
proof -
  from iterate_from_spec [of sc nb max_pages 1 "{}" w "(raised, w')"] assms
  obtain ns where ns: "normalised w' = normalised w @ ns"
    "yielded w' = yielded w @ first_occurrences {} ns"
    by (auto simp: iterate_listings_def walk_spec_def)
  let ?ys = "first_occurrences {} ns"
  have "distinct (map listing_id ?ys)"
    by (rule first_occurrences_distinct)
  moreover have "listing_id ` set ?ys = listing_id ` set ns"
    by (simp add: first_occurrences_ids)
  moreover have "length ?ys = card (listing_id ` set ns)"
    by (simp add: first_occurrences_length)
  moreover have "subseq ?ys ns"
    by (rule first_occurrences_subseq)
  moreover have "\<forall>y \<in> set ?ys. \<exists>i<length ns. ns ! i = y \<and>
      (\<forall>j<i. listing_id (ns ! j) \<noteq> listing_id y)"
    using first_occurrences_first [of _ "{}" ns] by blast
  ultimately show ?thesis using ns by blast
qed

theorem walk_yields_each_identifier_once_witness:
  "iterate_listings repeating_scraper \<lparr> name = ''Moema'', query = ''Moema'' \<rparr> None world0 =
     Some (None, repeating_world) \<and>
   (\<exists>ys ns. yielded repeating_world = yielded world0 @ ys \<and>
      normalised repeating_world = normalised world0 @ ns \<and>
      distinct (map listing_id ys) \<and>
      listing_id ` set ys = listing_id ` set ns \<and>
      length ys = card (listing_id ` set ns) \<and>
      subseq ys ns \<and>
      (\<forall>y \<in> set ys. \<exists>i<length ns. ns ! i = y \<and>
          (\<forall>j<i. listing_id (ns ! j) \<noteq> listing_id y)))"
  using walk_yields_each_identifier_once [OF repeating_walk] repeating_walk by simp

text \<open>
  Claim C1, as the code has it: \<^verbatim>\<open>scrape\<close> takes no timestamp of its own. Each listing
  is stamped inside \<^verbatim>\<open>_normalise_listing\<close> with a reading of the clock taken for that
  listing alone: the \<open>k\<close>-th listing normalised in a run carries the \<open>k\<close>-th clock reading
  of the run, and the listings yielded are a subsequence of the normalised ones.
\<close>

theorem scrape_stamps_each_listing:
  assumes "scrape sc max_pages = Some (raised, w)"
  shows "map captured_at (normalised w) = map (clock sc) [0..<length (normalised w)] \<and>
         subseq (yielded w) (normalised w) \<and>
         ticks w = length (normalised w)"
proof -
  have "run_spec sc world0 w"
    using assms scrape_from_spec [of sc max_pages "neighborhoods sc" world0 raised w]
    by (simp add: scrape_def)
  then show ?thesis
    by (auto simp: run_spec_def world0_def)
qed

theorem scrape_stamps_each_listing_witness:
  "scrape example_scraper None = Some (None, example_world) \<and>
   map captured_at (normalised example_world) =
     map (clock example_scraper) [0..<length (normalised example_world)] \<and>
   subseq (yielded example_world) (normalised example_world) \<and>
   ticks example_world = length (normalised example_world)"
  using scrape_stamps_each_listing [OF example_scrape] example_scrape by simp

text \<open>
  Claim C1, as stated, fails: in a run over one neighbourhood whose only page has two
  listings, with a clock that advances between two readings, the two listings yielded
  carry different \<^verbatim>\<open>captured_at\<close> values.
\<close>

theorem scrape_shares_no_timestamp:
  "scrape example_scraper None = Some (None, example_world) \<and>
   map captured_at (yielded example_world) = [DateTime (2024, 3, 15) 0, DateTime (2024, 3, 15) 1]"
  by (simp add: example_scrape example_world_def example_listing_1_def example_listing_2_def)

section \<open>Properties of the normaliser\<close>

lemma get_int_error: "get_int v = Inl e \<Longrightarrow> e = ValueError \<or> e = OverflowError"
  by (cases v) (auto simp: get_int_def int_of_float_def and_then_def split: pyfloat.splits)

lemma first_float_error: "first_float xs = Inl e \<Longrightarrow> e = OverflowError"
  by (induction xs) (auto simp: and_then_def split: sum.splits option.splits dest: get_float_error)

lemma get_first_number_error: "get_first_number v = Inl e \<Longrightarrow> e = OverflowError"
  by (cases v)
     (auto simp: get_first_number_def and_then_def split: sum.splits option.splits
           dest: get_float_error first_float_error)

lemma first_price_error: "first_price info keys = Inl e \<Longrightarrow> e = OverflowError"
  by (induction keys) (auto simp: and_then_def split: sum.splits option.splits dest: get_float_error)

lemma float_div_error: "float_div a b = Inl e \<Longrightarrow> e = ZeroDivisionError \<and> b = Fin 0"
  by (cases "(a, b)" rule: float_div.cases) (auto split: if_splits pyfloat.splits)

lemma float_div_returns: "b \<noteq> Fin 0 \<Longrightarrow> \<exists>q. float_div a b = Inr q"
  by (cases "(a, b)" rule: float_div.cases) (auto split: pyfloat.splits)

lemma compute_price_per_m2_eq:
  "compute_price_per_m2 area rent =
     Inr (case area of
            None \<Rightarrow> None
          | Some a \<Rightarrow>
              (case rent of
                 None \<Rightarrow> None
               | Some r \<Rightarrow>
                   if a = Fin 0 \<or> r = Fin 0 then None
                   else (case float_div r a of Inr q \<Rightarrow> Some q | Inl e \<Rightarrow> None)))"
proof (cases area)
  case None
  then show ?thesis by (simp add: compute_price_per_m2_def opt_float_truthy_def)
next
  case (Some a)
  show ?thesis
  proof (cases rent)
    case None
    with Some show ?thesis by (simp add: compute_price_per_m2_def opt_float_truthy_def)
  next
    case rent: (Some r)
    show ?thesis
    proof (cases "a = Fin 0 \<or> r = Fin 0")
      case True
      with Some rent show ?thesis
        by (auto simp: compute_price_per_m2_def opt_float_truthy_def float_truthy_def)
    next
      case False
      then obtain q where "float_div r a = Inr q"
        using float_div_returns [of a r] by blast
      with Some rent False show ?thesis
        by (simp add: compute_price_per_m2_def opt_float_truthy_def float_truthy_def)
    qed
  qed
qed

lemma normalise_listing_price:
  assumes "normalise_listing now raw = Inr (Some l)"
  shows "compute_price_per_m2 (area_m2 l) (rent_price l) = Inr (price_per_m2 l)"
  using assms
  by (auto simp: normalise_listing_def and_then_def split: option.splits sum.splits)

lemma normalise_listing_error:
  assumes "normalise_listing now raw = Inl e"
  shows "e = OverflowError \<or> e = ValueError"
proof -
  have price: "\<And>a r e'. compute_price_per_m2 a r \<noteq> Inl e'"
    by (simp add: compute_price_per_m2_eq)
  from assms show ?thesis
    by (auto simp: normalise_listing_def and_then_def parse_price_def parse_fee_def price
        split: option.splits sum.splits if_splits
        dest: get_first_number_error get_int_error first_price_error get_float_error)
qed

text \<open>
  Claim C4, as the code has it: the quotient is taken when area and rent are both present
  and both different from zero (a negative or non-finite area included), and
  \<^verbatim>\<open>price_per_m2\<close> is absent otherwise; no \<^verbatim>\<open>ZeroDivisionError\<close> leaves the normaliser.
\<close>

theorem price_per_m2_of_listing:
  "normalise_listing now raw \<noteq> Inl ZeroDivisionError \<and>
   (\<forall>l. normalise_listing now raw = Inr (Some l) \<longrightarrow>
      (area_m2 l = None \<or> rent_price l = None \<or>
       area_m2 l = Some (Fin 0) \<or> rent_price l = Some (Fin 0) \<longrightarrow> price_per_m2 l = None) \<and>
      (\<forall>a r. area_m2 l = Some a \<and> rent_price l = Some r \<and> a \<noteq> Fin 0 \<and> r \<noteq> Fin 0 \<longrightarrow>
         (\<exists>q. float_div r a = Inr q \<and> price_per_m2 l = Some q)) \<and>
      (\<forall>x y. area_m2 l = Some (Fin x) \<and> rent_price l = Some (Fin y) \<and> x \<noteq> 0 \<and> y \<noteq> 0 \<longrightarrow>
         price_per_m2 l = Some (to_double (y / x))))"
proof (intro conjI allI impI)
  show "normalise_listing now raw \<noteq> Inl ZeroDivisionError"
    using normalise_listing_error [of now raw ZeroDivisionError] by auto
next
  fix l
  assume l: "normalise_listing now raw = Inr (Some l)"
  assume "area_m2 l = None \<or> rent_price l = None \<or>
       area_m2 l = Some (Fin 0) \<or> rent_price l = Some (Fin 0)"
  then show "price_per_m2 l = None"
    using normalise_listing_price [OF l]
    by (auto simp: compute_price_per_m2_eq split: option.splits)
next
  fix l a r
  assume l: "normalise_listing now raw = Inr (Some l)"
  assume h: "area_m2 l = Some a \<and> rent_price l = Some r \<and> a \<noteq> Fin 0 \<and> r \<noteq> Fin 0"
  then obtain q where "float_div r a = Inr q"
    using float_div_returns [of a r] by blast
  then show "\<exists>q. float_div r a = Inr q \<and> price_per_m2 l = Some q"
    using normalise_listing_price [OF l] h by (simp add: compute_price_per_m2_eq)
next
  fix l x y
  assume l: "normalise_listing now raw = Inr (Some l)"
  assume h: "area_m2 l = Some (Fin x) \<and> rent_price l = Some (Fin y) \<and> x \<noteq> 0 \<and> y \<noteq> 0"
  then show "price_per_m2 l = Some (to_double (y / x))"
    using normalise_listing_price [OF l] by (simp add: compute_price_per_m2_eq)
qed

theorem price_per_m2_of_listing_witness:
  "normalise_listing (DateTime (2024, 3, 15) 0) example_raw_1 = Inr (Some example_listing_1) \<and>
   area_m2 example_listing_1 = Some (Fin 80) \<and>
   rent_price example_listing_1 = Some (Fin 4800) \<and>
   price_per_m2 example_listing_1 = Some (to_double (4800 / 80)) \<and>
   to_double (4800 / 80) = Fin 60"
proof -
  have l: "normalise_listing (DateTime (2024, 3, 15) 0) example_raw_1 = Inr (Some example_listing_1)"
    by (simp add: example_normalise_1 example_listing_1_def)
  have a: "area_m2 example_listing_1 = Some (Fin 80)" and r: "rent_price example_listing_1 = Some (Fin 4800)"
    by (simp_all add: example_listing_1_def)
  have "price_per_m2 example_listing_1 = Some (to_double (4800 / 80))"
    using price_per_m2_of_listing [of "DateTime (2024, 3, 15) 0" example_raw_1] l a r by simp
  moreover have "to_double (4800 / 80) = Fin 60"
    by (simp add: to_double_def dbl_overflow_def dbl_underflow_def)
  ultimately show ?thesis using l a r by simp
qed

text \<open>
  Claim C4, as stated, fails twice. A record with area 80 and rent 0 has both numbers
  present and a positive area, and its \<^verbatim>\<open>price_per_m2\<close> is absent, not \<open>0 / 80\<close>. A
  record with area -80 and rent 4800 has no positive area, and its \<^verbatim>\<open>price_per_m2\<close> is
  present (-60).
\<close>

theorem price_per_m2_guard_is_truthiness:
  "normalise_listing (DateTime (2024, 3, 15) 0)
     [(''id'', JStr ''z''), (''usableAreas'', JList [JInt 80]),
      (''pricingInfos'', JDict [(''price'', JInt 0)])] =
   Inr (Some ((bare_listing ''z'' ''Apartamento'' 0)
     \<lparr>area_m2 := Some (Fin 80), rent_price := Some (Fin 0), price_per_m2 := None\<rparr>)) \<and>
   normalise_listing (DateTime (2024, 3, 15) 0)
     [(''id'', JStr ''z''), (''usableAreas'', JList [JInt (- 80)]),
      (''pricingInfos'', JDict [(''price'', JInt 4800)])] =
   Inr (Some ((bare_listing ''z'' ''Apartamento'' 0)
     \<lparr>area_m2 := Some (Fin (- 80)), rent_price := Some (Fin 4800),
       price_per_m2 := Some (Fin (- 60))\<rparr>))"
  by (simp add: bare_listing_def str_defs num_defs field_defs)

lemma first_id_none:
  "(\<forall>k \<in> set keys. \<forall>s. dict_get raw k = JStr s \<longrightarrow> strip s = []) \<Longrightarrow> first_id raw keys = None"
  by (induction keys) (auto split: json.splits)

lemma first_id_some:
  assumes "\<forall>k' \<in> set pre. \<forall>s'. dict_get raw k' = JStr s' \<longrightarrow> strip s' = []"
    and "dict_get raw k = JStr s" and "strip s \<noteq> []"
  shows "first_id raw (pre @ k # post) = Some (strip s)"
  using assms by (induction pre) (auto split: json.splits)

lemma normalise_listing_absent:
  "get_listing_id raw = None \<Longrightarrow> normalise_listing now raw = Inr None"
  by (simp add: normalise_listing_def)

lemma normalise_listing_id:
  assumes "get_listing_id raw = Some i"
  shows "normalise_listing now raw \<noteq> Inr None \<and>
         (\<forall>l. normalise_listing now raw = Inr (Some l) \<longrightarrow> listing_id l = i)"
  using assms
  by (auto simp: normalise_listing_def and_then_def split: option.splits sum.splits)

text \<open>
  Claim C5, as the code has it: a candidate key counts when it holds a string that is not
  empty after trimming. If none of \<^verbatim>\<open>id\<close>, \<^verbatim>\<open>listingId\<close>, \<^verbatim>\<open>detailId\<close> does, the
  normaliser returns absent, without an exception. Otherwise it does not return absent,
  and the listing it returns has the trimmed value of the first such key, in that order,
  as its identifier.
\<close>

theorem listing_id_resolution:
  "id_keys = [''id'', ''listingId'', ''detailId''] \<and>
   ((\<forall>k \<in> set id_keys. \<forall>s. dict_get raw k = JStr s \<longrightarrow> strip s = []) \<longrightarrow>
      normalise_listing now raw = Inr None) \<and>
   (\<forall>pre k post s.
      id_keys = pre @ k # post \<and>
      (\<forall>k' \<in> set pre. \<forall>s'. dict_get raw k' = JStr s' \<longrightarrow> strip s' = []) \<and>
      dict_get raw k = JStr s \<and> strip s \<noteq> [] \<longrightarrow>
      normalise_listing now raw \<noteq> Inr None \<and>
      (\<forall>l. normalise_listing now raw = Inr (Some l) \<longrightarrow> listing_id l = strip s))"
proof (intro conjI allI impI)
  show "id_keys = [''id'', ''listingId'', ''detailId'']"
    by (simp add: id_keys_def)
next
  assume "\<forall>k \<in> set id_keys. \<forall>s. dict_get raw k = JStr s \<longrightarrow> strip s = []"
  then have "get_listing_id raw = None"
    unfolding get_listing_id_def by (rule first_id_none)
  then show "normalise_listing now raw = Inr None"
    by (rule normalise_listing_absent)
next
  fix pre k post s
  assume h: "id_keys = pre @ k # post \<and>
      (\<forall>k' \<in> set pre. \<forall>s'. dict_get raw k' = JStr s' \<longrightarrow> strip s' = []) \<and>
      dict_get raw k = JStr s \<and> strip s \<noteq> []"
  then have "first_id raw (pre @ k # post) = Some (strip s)"
    by (intro first_id_some) auto
  with h have "get_listing_id raw = Some (strip s)"
    by (simp add: get_listing_id_def)
  from normalise_listing_id [OF this, of now]
  show "normalise_listing now raw \<noteq> Inr None"
    and "\<And>l. normalise_listing now raw = Inr (Some l) \<Longrightarrow> listing_id l = strip s"
    by auto
qed

theorem listing_id_resolution_witness:
  "normalise_listing (DateTime (2024, 3, 15) 0) [(''id'', JInt 7), (''detailId'', JStr ''  '')] = Inr None \<and>
   normalise_listing (DateTime (2024, 3, 15) 0)
     [(''detailId'', JStr ''c''), (''listingId'', JStr '' b ''), (''id'', JInt 7)] =
     Inr (Some (bare_listing ''b'' ''Apartamento'' 0)) \<and>
   listing_id (bare_listing ''b'' ''Apartamento'' 0) = strip '' b ''"
proof -
  let ?t = "DateTime (2024, 3, 15) 0"
  let ?r1 = "[(''id'', JInt 7), (''detailId'', JStr ''  '')]"
  let ?r2 = "[(''detailId'', JStr ''c''), (''listingId'', JStr '' b ''), (''id'', JInt 7)]"
  have none: "\<forall>k \<in> set id_keys. \<forall>s. dict_get ?r1 k = JStr s \<longrightarrow> strip s = []"
    by (auto simp: id_keys_def dict_get_def strip_def is_space_def)
  have absent: "normalise_listing ?t ?r1 = Inr None"
    using listing_id_resolution [of ?r1 ?t] none by blast
  have l: "normalise_listing ?t ?r2 = Inr (Some (bare_listing ''b'' ''Apartamento'' 0))"
    by (simp add: bare_listing_def str_defs num_defs field_defs)
  have "id_keys = [''id''] @ ''listingId'' # [''detailId''] \<and>
      (\<forall>k' \<in> set [''id'']. \<forall>s'. dict_get ?r2 k' = JStr s' \<longrightarrow> strip s' = []) \<and>
      dict_get ?r2 ''listingId'' = JStr '' b '' \<and> strip '' b '' \<noteq> []"
    by (simp add: id_keys_def dict_get_def strip_def is_space_def)
  then have "listing_id (bare_listing ''b'' ''Apartamento'' 0) = strip '' b ''"
    using listing_id_resolution [of ?r2 ?t] l by blast
  with absent l show ?thesis by simp
qed

text \<open>
  Claim C5, as stated, fails on a string of white space. In the first record the key
  \<^verbatim>\<open>id\<close> holds a non-empty string (two spaces) and is the first candidate to do so, yet
  the identifier of the result is that of \<^verbatim>\<open>listingId\<close>, not the (empty) trimmed value
  of \<^verbatim>\<open>id\<close>; in the second record a candidate key holds a non-empty string, yet the
  normaliser returns absent.
\<close>

theorem blank_identifier_is_skipped:
  "dict_get [(''id'', JStr ''  ''), (''listingId'', JStr ''x'')] ''id'' = JStr ''  '' \<and>
   ''  '' \<noteq> [] \<and>
   strip ''  '' = [] \<and>
   normalise_listing (DateTime (2024, 3, 15) 0) [(''id'', JStr ''  ''), (''listingId'', JStr ''x'')] =
     Inr (Some (bare_listing ''x'' ''Apartamento'' 0)) \<and>
   listing_id (bare_listing ''x'' ''Apartamento'' 0) = ''x'' \<and>
   normalise_listing (DateTime (2024, 3, 15) 0) [(''id'', JStr ''  '')] = Inr None"
  by (simp add: bare_listing_def str_defs num_defs field_defs)

subsection \<open>The last page of a walk\<close>








section \<open>Properties of the store\<close>






lemma update_snapshot_id [simp]: "s_listing_id (update_snapshot new r) = s_listing_id r"
  by (simp add: update_snapshot_def)




lemma update_history_key [simp]: "history_key (update_history new r) = history_key r"
  by (simp add: update_history_def history_key_def)
























lemma test_database_valid: "valid_database test_database"
  by (simp add: valid_database_def test_database_def test_snapshot_def test_history_def
      history_key_def)














section \<open>Properties of the reporting queries\<close>

lemma foldl_avg_step:
  "foldl avg_step (s, n) vs = (foldl float_add s (present vs), n + length (present vs))"
proof (induction vs arbitrary: s n)
  case Nil
  show ?case by (simp add: present_def)
next
  case (Cons v vs)
  show ?case
  proof (cases v)
    case None
    then show ?thesis using Cons [of s n] by (simp add: avg_step_def present_def)
  next
    case (Some x)
    then show ?thesis using Cons [of "float_add s x" "n + 1"]
      by (simp add: avg_step_def present_def)
  qed
qed

lemma sql_avg_mean: "sql_avg vs = float_mean (present vs)"
  by (simp add: sql_avg_def foldl_avg_step avg_final_def float_mean_def)

lemma concat_singletons_filter:
  "concat (map (\<lambda>x. if P x then [x] else []) xs) = filter P xs"
  by (induction xs) simp_all

lemma concat_at_most_one:
  assumes "distinct (map k ls)" and "\<And>l. P l \<Longrightarrow> k l = c"
  shows "concat (map (\<lambda>l. if P l then [x] else []) ls) = (if \<exists>l \<in> set ls. P l then [x] else [])"
  using assms(1)
proof (induction ls)
  case Nil
  show ?case by simp
next
  case (Cons l ls)
  then have d: "distinct (map k ls)" and fresh: "k l \<notin> k ` set ls" by simp_all
  show ?case
  proof (cases "P l")
    case True
    have "\<not> (\<exists>l' \<in> set ls. P l')"
    proof
      assume "\<exists>l' \<in> set ls. P l'"
      then obtain l' where "l' \<in> set ls" "P l'" by blast
      then have "k l' = k l" using assms(2) True by simp
      with \<open>l' \<in> set ls\<close> fresh show False by (metis imageI)
    qed
    with True Cons.IH [OF d] show ?thesis by simp
  next
    case False
    with Cons.IH [OF d] show ?thesis by simp
  qed
qed

lemma selected_history_matching:
  assumes "distinct (map s_listing_id (listings db))"
  shows "selected_history db nb flt = matching_history db nb flt"
proof -
  let ?ok = "\<lambda>ph. case flt of None \<Rightarrow> True | Some f \<Rightarrow> h_furnished ph = (if f then 1 else 0)"
  have inner: "concat (map (\<lambda>l.
         if s_listing_id l = h_listing_id ph \<and> s_neighborhood l = nb \<and> ?ok ph
         then [ph] else []) (listings db)) =
      (if (\<exists>l \<in> set (listings db). s_listing_id l = h_listing_id ph \<and> s_neighborhood l = nb) \<and> ?ok ph
       then [ph] else [])" for ph
    using concat_at_most_one [OF assms,
        of "\<lambda>l. s_listing_id l = h_listing_id ph \<and> s_neighborhood l = nb \<and> ?ok ph"
           "h_listing_id ph" ph]
    by auto
  show ?thesis
    unfolding selected_history_def matching_history_def inner
    by (rule concat_singletons_filter)
qed

lemma daily_average_dates:
  "map captured_date (get_neighborhood_daily_average db nb flt) =
     sort (remdups (map (\<lambda>ph. date_of (h_captured_at ph)) (selected_history db nb flt)))"
  by (simp add: get_neighborhood_daily_average_def group_row_def comp_def)

lemma daily_average_row:
  assumes "row \<in> set (get_neighborhood_daily_average db nb flt)"
  shows "row = group_row (selected_history db nb flt) (captured_date row) \<and>
         captured_date row \<in> (\<lambda>ph. date_of (h_captured_at ph)) ` set (selected_history db nb flt)"
proof -
  from assms obtain d where d: "d \<in> set (sort (remdups (map (\<lambda>ph. date_of (h_captured_at ph))
        (selected_history db nb flt))))" and row: "row = group_row (selected_history db nb flt) d"
    unfolding get_neighborhood_daily_average_def set_map by (rule imageE)
  have cd: "captured_date row = d" using row by (simp add: group_row_def)
  from d have "d \<in> (\<lambda>ph. date_of (h_captured_at ph)) ` set (selected_history db nb flt)"
    by simp
  with row cd show ?thesis by simp
qed

text \<open>
  Claim C9: \<^verbatim>\<open>get_neighborhood_daily_average\<close> considers the history points of the
  listings of the neighbourhood, and only those with the furnished flag asked for when
  the filter is given; it returns one row for each calendar date of these points, by
  strictly ascending date; the count of a row is the number of points of its date, and
  each average is the mean of the values that are present among them, so that a point
  without price per square metre takes no part in that average and is counted.
\<close>

theorem daily_average_groups_by_date:
  assumes "valid_database db"
  shows "selected_history db nb flt = matching_history db nb flt \<and>
    sorted_wrt (<) (map captured_date (get_neighborhood_daily_average db nb flt)) \<and>
    set (map captured_date (get_neighborhood_daily_average db nb flt)) =
      (\<lambda>ph. date_of (h_captured_at ph)) ` set (matching_history db nb flt) \<and>
    (\<forall>row \<in> set (get_neighborhood_daily_average db nb flt).
       listings_count row = length (on_date (captured_date row) (matching_history db nb flt)) \<and>
       0 < listings_count row \<and>
       avg_rent_price row =
         float_mean (present (map h_rent_price
           (on_date (captured_date row) (matching_history db nb flt)))) \<and>
       avg_price_per_m2 row =
         float_mean (present (map h_price_per_m2
           (on_date (captured_date row) (matching_history db nb flt)))))"
proof -
  from assms have d: "distinct (map s_listing_id (listings db))"
    by (simp add: valid_database_def)
  have sel: "selected_history db nb flt = matching_history db nb flt"
    using d by (rule selected_history_matching)
  have dates: "map captured_date (get_neighborhood_daily_average db nb flt) =
      sort (remdups (map (\<lambda>ph. date_of (h_captured_at ph)) (matching_history db nb flt)))"
    using daily_average_dates [of db nb flt] unfolding sel .
  have ordered: "sorted_wrt (<) (map captured_date (get_neighborhood_daily_average db nb flt))"
    unfolding dates strict_sorted_iff by simp
  have cover: "set (map captured_date (get_neighborhood_daily_average db nb flt)) =
      (\<lambda>ph. date_of (h_captured_at ph)) ` set (matching_history db nb flt)"
    unfolding dates by simp
  have rows: "listings_count row = length (on_date (captured_date row) (matching_history db nb flt)) \<and>
       0 < listings_count row \<and>
       avg_rent_price row =
         float_mean (present (map h_rent_price
           (on_date (captured_date row) (matching_history db nb flt)))) \<and>
       avg_price_per_m2 row =
         float_mean (present (map h_price_per_m2
           (on_date (captured_date row) (matching_history db nb flt))))"
    if "row \<in> set (get_neighborhood_daily_average db nb flt)" for row
  proof -
    from daily_average_row [OF that] have
      row: "row = group_row (matching_history db nb flt) (captured_date row)" and
      mem: "captured_date row \<in> (\<lambda>ph. date_of (h_captured_at ph)) ` set (matching_history db nb flt)"
      unfolding sel by simp_all
    from mem obtain ph where "ph \<in> set (matching_history db nb flt)"
      "date_of (h_captured_at ph) = captured_date row"
      by (metis imageE)
    then have "ph \<in> set (on_date (captured_date row) (matching_history db nb flt))"
      by (simp add: on_date_def)
    then have pos: "0 < length (on_date (captured_date row) (matching_history db nb flt))"
      by (metis length_pos_if_in_set)
    have c: "listings_count row = length (on_date (captured_date row) (matching_history db nb flt))"
      by (subst row) (simp add: group_row_def on_date_def)
    have r: "avg_rent_price row = float_mean (present (map h_rent_price
           (on_date (captured_date row) (matching_history db nb flt))))"
      by (subst row) (simp add: group_row_def on_date_def sql_avg_mean)
    have p: "avg_price_per_m2 row = float_mean (present (map h_price_per_m2
           (on_date (captured_date row) (matching_history db nb flt))))"
      by (subst row) (simp add: group_row_def on_date_def sql_avg_mean)
    from c pos r p show ?thesis by simp
  qed
  from sel ordered cover rows show ?thesis by blast
qed

lemma to_double_small: "\<bar>x\<bar> < 2 ^ 64 \<Longrightarrow> 1 / 2 ^ 64 < \<bar>x\<bar> \<Longrightarrow> to_double x = Fin x"
proof -
  assume a: "\<bar>x\<bar> < 2 ^ 64" and b: "1 / 2 ^ 64 < \<bar>x\<bar>"
  have "(2::real) ^ 64 \<le> 2 ^ 1024 - 2 ^ 970" by simp
  with a have 1: "\<not> dbl_overflow \<le> \<bar>x\<bar>" by (simp add: dbl_overflow_def)
  have "(1::real) / 2 ^ 1075 \<le> 1 / 2 ^ 64" by (simp add: field_simps)
  with b have 2: "\<not> \<bar>x\<bar> \<le> dbl_underflow" by (simp add: dbl_underflow_def)
  from 1 2 show ?thesis by (simp add: to_double_def)
qed

lemma test_selected:
  "matching_history test_database ''Pinheiros'' (Some True) =
     [test_history ''ABC123'' 5 5000 (Some (125 / 2)),
      test_history ''ABC123'' 6 5200 (Some 65),
      test_history ''DEF456'' 5 4000 None]"
  by (simp add: matching_history_def test_database_def test_snapshot_def test_history_def)

lemma test_average:
  "get_neighborhood_daily_average test_database ''Pinheiros'' (Some True) =
     [\<lparr> captured_date = (2024, 1, 5), avg_rent_price = Some (Fin 4500),
        avg_price_per_m2 = Some (Fin (125 / 2)), listings_count = 2 \<rparr>,
      \<lparr> captured_date = (2024, 1, 6), avg_rent_price = Some (Fin 5200),
        avg_price_per_m2 = Some (Fin 65), listings_count = 1 \<rparr>]"
  unfolding get_neighborhood_daily_average_def
    selected_history_matching [OF test_database_valid [unfolded valid_database_def, THEN conjunct1]]
    test_selected
  by (simp add: group_row_def sql_avg_def avg_step_def avg_final_def float_over_count_def
      bind_real_def test_history_def to_double_small less_eq_prod_def)

theorem daily_average_groups_by_date_witness:
  "valid_database test_database \<and>
   selected_history test_database ''Pinheiros'' (Some True) =
     [test_history ''ABC123'' 5 5000 (Some (125 / 2)),
      test_history ''ABC123'' 6 5200 (Some 65),
      test_history ''DEF456'' 5 4000 None] \<and>
   sorted_wrt (<) (map captured_date
     (get_neighborhood_daily_average test_database ''Pinheiros'' (Some True))) \<and>
   get_neighborhood_daily_average test_database ''Pinheiros'' (Some True) =
     [\<lparr> captured_date = (2024, 1, 5), avg_rent_price = Some (Fin 4500),
        avg_price_per_m2 = Some (Fin (125 / 2)), listings_count = 2 \<rparr>,
      \<lparr> captured_date = (2024, 1, 6), avg_rent_price = Some (Fin 5200),
        avg_price_per_m2 = Some (Fin 65), listings_count = 1 \<rparr>]"
proof -
  note t = daily_average_groups_by_date [OF test_database_valid, of "''Pinheiros''" "Some True"]
  from t have a: "selected_history test_database ''Pinheiros'' (Some True) =
      matching_history test_database ''Pinheiros'' (Some True)"
    by (rule conjunct1)
  from t have b: "sorted_wrt (<) (map captured_date
     (get_neighborhood_daily_average test_database ''Pinheiros'' (Some True)))"
    by (rule conjunct1 [OF conjunct2])
  from a have a': "selected_history test_database ''Pinheiros'' (Some True) =
     [test_history ''ABC123'' 5 5000 (Some (125 / 2)),
      test_history ''ABC123'' 6 5200 (Some 65),
      test_history ''DEF456'' 5 4000 None]"
    unfolding test_selected .
  show ?thesis
    by (intro conjI) (rule test_database_valid, rule a', rule b, rule test_average)
qed

end
